theory Spec2Isabelle
  imports Main
begin

unbundle bit_operations_syntax

section \<open>The MD5 digest used by \<open>generate_short_code\<close>\<close>

text \<open>
  \<open>generate_short_code\<close> calls \<open>hashlib.md5(url.encode()).hexdigest()\<close>. The digest is
  the one of RFC 1321; it is written out here so that short codes can be computed for
  concrete URLs. A 32-bit word is a natural number below \<open>2 ^ 32\<close>, with the wrap-around
  of every addition and shift written out. A Python string is taken as the list of the
  bytes of its UTF-8 encoding (a \<open>string\<close>), so \<open>url.encode()\<close> is the list of the byte
  values of the string, and \<open>+\<close> and \<open>startswith\<close> on strings are those on the byte
  lists. (A string with no UTF-8 encoding, one with an unpaired surrogate, is not a value
  of this type.)
\<close>

type_synonym u32 = nat

definition add32 :: "u32 \<Rightarrow> u32 \<Rightarrow> u32" where
  "add32 x y = (x + y) mod 2 ^ 32"

definition not32 :: "u32 \<Rightarrow> u32" where
  "not32 x = x XOR 0xFFFFFFFF"

definition rotl32 :: "u32 \<Rightarrow> nat \<Rightarrow> u32" where
  "rotl32 x c = (x * 2 ^ c) mod 2 ^ 32 OR x div 2 ^ (32 - c)"

text \<open>The per-round shift amounts and the sine table of RFC 1321.\<close>

definition md5_s :: "nat list" where
  "md5_s = [7, 12, 17, 22, 7, 12, 17, 22, 7, 12, 17, 22, 7, 12, 17, 22,
            5, 9, 14, 20, 5, 9, 14, 20, 5, 9, 14, 20, 5, 9, 14, 20,
            4, 11, 16, 23, 4, 11, 16, 23, 4, 11, 16, 23, 4, 11, 16, 23,
            6, 10, 15, 21, 6, 10, 15, 21, 6, 10, 15, 21, 6, 10, 15, 21]"

definition md5_K :: "u32 list" where
  "md5_K = [0xd76aa478, 0xe8c7b756, 0x242070db, 0xc1bdceee,
            0xf57c0faf, 0x4787c62a, 0xa8304613, 0xfd469501,
            0x698098d8, 0x8b44f7af, 0xffff5bb1, 0x895cd7be,
            0x6b901122, 0xfd987193, 0xa679438e, 0x49b40821,
            0xf61e2562, 0xc040b340, 0x265e5a51, 0xe9b6c7aa,
            0xd62f105d, 0x02441453, 0xd8a1e681, 0xe7d3fbc8,
            0x21e1cde6, 0xc33707d6, 0xf4d50d87, 0x455a14ed,
            0xa9e3e905, 0xfcefa3f8, 0x676f02d9, 0x8d2a4c8a,
            0xfffa3942, 0x8771f681, 0x6d9d6122, 0xfde5380c,
            0xa4beea44, 0x4bdecfa9, 0xf6bb4b60, 0xbebfbc70,
            0x289b7ec6, 0xeaa127fa, 0xd4ef3085, 0x04881d05,
            0xd9d4d039, 0xe6db99e5, 0x1fa27cf8, 0xc4ac5665,
            0xf4292244, 0x432aff97, 0xab9423a7, 0xfc93a039,
            0x655b59c3, 0x8f0ccc92, 0xffeff47d, 0x85845dd1,
            0x6fa87e4f, 0xfe2ce6e0, 0xa3014314, 0x4e0811a1,
            0xf7537e82, 0xbd3af235, 0x2ad7d2bb, 0xeb86d391]"

text \<open>Round \<open>i\<close> with its constant and its shift amount.\<close>

definition md5_table :: "(nat \<times> u32 \<times> nat) list" where
  "md5_table = zip [0..<64] (zip md5_K md5_s)"

text \<open>
  Padding: the byte \<open>0x80\<close>, zero bytes up to 56 modulo 64, and the length of the message
  in bits as a 64-bit little-endian integer.
\<close>

definition md5_pad :: "nat list \<Rightarrow> nat list" where
  "md5_pad bs =
     bs @ [128] @ replicate ((119 - length bs mod 64) mod 64) 0 @
     map (\<lambda>i. (8 * length bs) div 256 ^ i mod 256) [0..<8]"

definition le_word32 :: "nat list \<Rightarrow> u32" where
  "le_word32 bs = bs ! 0 + 256 * (bs ! 1) + 65536 * (bs ! 2) + 16777216 * (bs ! 3)"

definition le_bytes32 :: "u32 \<Rightarrow> nat list" where
  "le_bytes32 w = map (\<lambda>i. w div 256 ^ i mod 256) [0..<4]"

definition md5_F :: "nat \<Rightarrow> u32 \<Rightarrow> u32 \<Rightarrow> u32 \<Rightarrow> u32" where
  "md5_F i B C D =
     (if i < 16 then (B AND C) OR (not32 B AND D)
      else if i < 32 then (D AND B) OR (not32 D AND C)
      else if i < 48 then B XOR C XOR D
      else C XOR (B OR not32 D))"

definition md5_g :: "nat \<Rightarrow> nat" where
  "md5_g i =
     (if i < 16 then i
      else if i < 32 then (5 * i + 1) mod 16
      else if i < 48 then (3 * i + 5) mod 16
      else (7 * i) mod 16)"

fun md5_step :: "u32 list \<Rightarrow> u32 \<times> u32 \<times> u32 \<times> u32 \<Rightarrow> nat \<times> u32 \<times> nat \<Rightarrow>
    u32 \<times> u32 \<times> u32 \<times> u32" where
  "md5_step M (A, B, C, D) (i, k, s) =
     (D, add32 B (rotl32 (add32 (add32 (add32 (md5_F i B C D) A) k) (M ! md5_g i)) s), B, C)"

fun md5_add :: "u32 \<times> u32 \<times> u32 \<times> u32 \<Rightarrow> u32 \<times> u32 \<times> u32 \<times> u32 \<Rightarrow>
    u32 \<times> u32 \<times> u32 \<times> u32" where
  "md5_add (a0, b0, c0, d0) (A, B, C, D) = (add32 a0 A, add32 b0 B, add32 c0 C, add32 d0 D)"

definition md5_words :: "nat list \<Rightarrow> u32 list" where
  "md5_words blk = map (\<lambda>j. le_word32 (take 4 (drop (4 * j) blk))) [0..<16]"

definition md5_block :: "u32 \<times> u32 \<times> u32 \<times> u32 \<Rightarrow> nat list \<Rightarrow> u32 \<times> u32 \<times> u32 \<times> u32" where
  "md5_block st blk = md5_add st (foldl (md5_step (md5_words blk)) st md5_table)"

fun chunks64 :: "nat list \<Rightarrow> nat list list" where
  "chunks64 bs = (if bs = [] then [] else take 64 bs # chunks64 (drop 64 bs))"

declare chunks64.simps [simp del]

fun md5_out :: "u32 \<times> u32 \<times> u32 \<times> u32 \<Rightarrow> nat list" where
  "md5_out (a, b, c, d) = le_bytes32 a @ le_bytes32 b @ le_bytes32 c @ le_bytes32 d"

definition md5_digest :: "nat list \<Rightarrow> nat list" where
  "md5_digest bs =
     md5_out (foldl md5_block (0x67452301, 0xefcdab89, 0x98badcfe, 0x10325476)
       (chunks64 (md5_pad bs)))"

definition hex_digit :: "nat \<Rightarrow> char" where
  "hex_digit n = ''0123456789abcdef'' ! n"

definition hex_byte :: "nat \<Rightarrow> string" where
  "hex_byte b = [hex_digit (b div 16), hex_digit (b mod 16)]"

definition md5_hexdigest :: "string \<Rightarrow> string" where
  "md5_hexdigest s = concat (map hex_byte (md5_digest (map of_char s)))"

section \<open>The code generator\<close>

text \<open>
  \<open>generate_short_code(url, length=6)\<close>. The three characters that
  \<open>random.choices(string.ascii_letters + string.digits, k=3)\<close> draws are the argument
  \<open>random_chars\<close>: the function is a pure function of the URL and of what the random
  source returned. \<open>combined[:n]\<close> is \<open>take n combined\<close>. Every call in the source uses
  the default length 6.
\<close>

definition generate_short_code :: "string \<Rightarrow> string \<Rightarrow> nat \<Rightarrow> string" where
  "generate_short_code url random_chars n = take n (md5_hexdigest url @ random_chars)"

section \<open>JSON values and the Python operations the handlers apply to them\<close>

text \<open>
  \<open>request.get_json()\<close> returns the parsed body, any JSON value. A number is modelled
  as an integer (the handlers only test a number for being zero). \<open>JObj\<close> holds the
  items of a Python dict, whose keys are unique. The text of an exception is written
  without the quotation marks that Python puts around type names.
\<close>

datatype json =
    JNull
  | JBool bool
  | JNum int
  | JStr string
  | JArr "json list"
  | JObj "(string \<times> json) list"

datatype py_exception =
    TypeError string
  | AttributeError string
  | KeyError string
  | ValueError string
  | IntegrityError string

fun exc_str :: "py_exception \<Rightarrow> string" where
  "exc_str (TypeError m) = m"
| "exc_str (AttributeError m) = m"
| "exc_str (KeyError m) = m"
| "exc_str (ValueError m) = m"
| "exc_str (IntegrityError m) = m"

text \<open>Truth value of a Python object, as \<open>not data\<close> tests it.\<close>

fun truthy :: "json \<Rightarrow> bool" where
  "truthy JNull = False"
| "truthy (JBool b) = b"
| "truthy (JNum n) = (n \<noteq> 0)"
| "truthy (JStr s) = (s \<noteq> [])"
| "truthy (JArr xs) = (xs \<noteq> [])"
| "truthy (JObj kvs) = (kvs \<noteq> [])"

definition startswith :: "string \<Rightarrow> string \<Rightarrow> bool" where
  "startswith s p = (take (length p) s = p)"

fun str_contains :: "string \<Rightarrow> string \<Rightarrow> bool" where
  "str_contains p [] = (p = [])"
| "str_contains p (c # cs) = (startswith (c # cs) p \<or> str_contains p cs)"

text \<open>
  \<open>k in data\<close>: a key of a dict, an element of a list, a substring of a string; any
  other JSON value is not iterable and the test raises \<open>TypeError\<close>.
\<close>

fun py_in :: "string \<Rightarrow> json \<Rightarrow> py_exception + bool" where
  "py_in k (JObj kvs) = Inr (map_of kvs k \<noteq> None)"
| "py_in k (JArr xs) = Inr (JStr k \<in> set xs)"
| "py_in k (JStr s) = Inr (str_contains k s)"
| "py_in k JNull = Inl (TypeError ''argument of type NoneType is not iterable'')"
| "py_in k (JBool b) = Inl (TypeError ''argument of type bool is not iterable'')"
| "py_in k (JNum n) = Inl (TypeError ''argument of type int is not iterable'')"

text \<open>\<open>data[k]\<close> for a string \<open>k\<close>: only a dict can be indexed by a string.\<close>

fun py_getitem :: "json \<Rightarrow> string \<Rightarrow> py_exception + json" where
  "py_getitem (JObj kvs) k = (case map_of kvs k of None \<Rightarrow> Inl (KeyError k) | Some v \<Rightarrow> Inr v)"
| "py_getitem (JArr xs) k = Inl (TypeError ''list indices must be integers or slices, not str'')"
| "py_getitem (JStr s) k = Inl (TypeError ''string indices must be integers, not str'')"
| "py_getitem JNull k = Inl (TypeError ''NoneType object is not subscriptable'')"
| "py_getitem (JBool b) k = Inl (TypeError ''bool object is not subscriptable'')"
| "py_getitem (JNum n) k = Inl (TypeError ''int object is not subscriptable'')"

text \<open>\<open>str(n)\<close> for a non-negative integer: its decimal digits.\<close>

fun str_nat :: "nat \<Rightarrow> string" where
  "str_nat n =
     (if n < 10 then [''0123456789'' ! n]
      else str_nat (n div 10) @ [''0123456789'' ! (n mod 10)])"

declare str_nat.simps [simp del]

section \<open>The table \<open>urls\<close>\<close>

text \<open>
  One row per record, in insertion order. \<open>seq\<close> is the counter SQLite keeps for an
  \<open>AUTOINCREMENT\<close> key. \<open>created_at\<close> is the value of \<open>CURRENT_TIMESTAMP\<close> at the
  insertion, in whole seconds (SQLite's timestamp text has a resolution of one second and
  compares as the time does).
\<close>

record url_row =
  row_id :: nat
  short_code :: string
  long_url :: string
  created_at :: nat

record db =
  urls :: "url_row list"
  seq :: nat

text \<open>
  \<open>init_db\<close>: \<open>CREATE TABLE IF NOT EXISTS\<close>; a database file that exists is left as it
  is (\<open>Some d\<close>), a new one gets the empty table.
\<close>

definition init_db :: "db option \<Rightarrow> db" where
  "init_db old = (case old of None \<Rightarrow> \<lparr>urls = [], seq = 0\<rparr> | Some d \<Rightarrow> d)"

text \<open>\<open>SELECT id FROM urls WHERE short_code = ?\<close>, then \<open>fetchone()\<close>.\<close>

definition select_id :: "db \<Rightarrow> string \<Rightarrow> nat option" where
  "select_id d code = map_option row_id (find (\<lambda>r. short_code r = code) (urls d))"

text \<open>\<open>SELECT long_url FROM urls WHERE short_code = ?\<close>, then \<open>fetchone()\<close>.\<close>

definition select_long_url :: "db \<Rightarrow> string \<Rightarrow> string option" where
  "select_long_url d code = map_option long_url (find (\<lambda>r. short_code r = code) (urls d))"

text \<open>
  \<open>INSERT INTO urls (short_code, long_url) VALUES (?, ?)\<close> and the commit. The new row
  gets the next key and the current time; \<open>append_row\<close> is the table after it. The
  column \<open>short_code\<close> is \<open>UNIQUE\<close>: inserting a code the table holds raises
  \<open>sqlite3.IntegrityError\<close> and changes nothing.
\<close>

definition append_row :: "string \<Rightarrow> string \<Rightarrow> nat \<Rightarrow> db \<Rightarrow> db" where
  "append_row code url now d =
     \<lparr>urls = urls d @
        [\<lparr>row_id = Suc (seq d), short_code = code, long_url = url, created_at = now\<rparr>],
      seq = Suc (seq d)\<rparr>"

definition insert_url :: "string \<Rightarrow> string \<Rightarrow> nat \<Rightarrow> db \<Rightarrow> py_exception + db" where
  "insert_url code url now d =
     (if find (\<lambda>r. short_code r = code) (urls d) \<noteq> None
      then Inl (IntegrityError ''UNIQUE constraint failed: urls.short_code'')
      else Inr (append_row code url now d))"

text \<open>\<open>SELECT COUNT(*) as total FROM urls\<close>.\<close>

definition count_urls :: "db \<Rightarrow> nat" where
  "count_urls d = length (urls d)"

text \<open>
  \<open>SELECT short_code, long_url, created_at FROM urls ORDER BY created_at DESC LIMIT 10\<close>.
  The rows come by descending \<open>created_at\<close>, and rows with equal \<open>created_at\<close> come in
  the order of their insertion, which is how SQLite returns them: its sort keeps the order
  of the table scan among equal keys. \<open>sort_key\<close> is such a stable sort, here by the
  negated timestamp; \<open>LIMIT 10\<close> keeps the first ten rows of the result.
\<close>

definition select_recent :: "db \<Rightarrow> url_row list" where
  "select_recent d = take 10 (sort_key (\<lambda>r. - int (created_at r)) (urls d))"

section \<open>The request handlers\<close>

text \<open>
  A response is its status code and its body: \<open>jsonify(body), status\<close>, \<open>redirect(url)\<close>
  (whose status is 302), or a page of text.
\<close>

datatype response =
    Json nat json
  | Redirect nat string
  | Html nat string

definition error_body :: "string \<Rightarrow> json" where
  "error_body msg = JObj [(''error'', JStr msg)]"

text \<open>
  \<open>redirect(location)\<close>: a response 302 with the header \<open>Location\<close>. Werkzeug refuses a
  header value that contains a carriage return or a line feed: setting it raises
  \<open>ValueError\<close>.
\<close>

definition has_newline :: "string \<Rightarrow> bool" where
  "has_newline s = (CHR 0x0D \<in> set s \<or> CHR 0x0A \<in> set s)"

definition py_redirect :: "string \<Rightarrow> py_exception + response" where
  "py_redirect location =
     (if has_newline location
      then Inl (ValueError ''Header values must not contain newline characters.'')
      else Inr (Redirect 302 location))"

text \<open>
  The loop of \<open>shorten_url\<close>:
  \<^verbatim>\<open>
  for attempt in range(max_attempts):
      cursor.execute('SELECT id FROM urls WHERE short_code = ?', (short_code,))
      if cursor.fetchone() is None:
          break
      short_code = generate_short_code(long_url + str(attempt))
  else:
      ... return 500
  \<close>
  over the attempts that are left and the candidate at hand. \<open>Some c\<close> is the \<open>break\<close>
  with the code \<open>c\<close>, \<open>None\<close> the \<open>else\<close> branch. \<open>rnd k\<close> is what the random source
  returns in the call of \<open>generate_short_code\<close> number \<open>k\<close> of the request.
\<close>

fun collision_loop :: "db \<Rightarrow> string \<Rightarrow> (nat \<Rightarrow> string) \<Rightarrow> nat list \<Rightarrow> string \<Rightarrow> string option" where
  "collision_loop d long_url' rnd [] code = None"
| "collision_loop d long_url' rnd (attempt # rest) code =
     (if select_id d code = None then Some code
      else collision_loop d long_url' rnd rest
             (generate_short_code (long_url' @ str_nat attempt) (rnd (Suc attempt)) 6))"

definition max_attempts :: nat where
  "max_attempts = 5"

text \<open>The body of the response 201 of \<open>shorten_url\<close>.\<close>

definition created_body :: "string \<Rightarrow> string \<Rightarrow> json" where
  "created_body code url =
     JObj [(''short_code'', JStr code),
           (''short_url'', JStr (''http://localhost:5000/'' @ code)),
           (''long_url'', JStr url)]"

text \<open>
  The part of \<open>shorten_url\<close> after the validation, for the URL \<open>long_url'\<close>: the first
  candidate, the loop, the insertion and the response.
\<close>

definition allocate_and_insert :: "string \<Rightarrow> (nat \<Rightarrow> string) \<Rightarrow> nat \<Rightarrow> db \<Rightarrow> response \<times> db" where
  "allocate_and_insert long_url' rnd now d =
     (case collision_loop d long_url' rnd [0..<max_attempts]
             (generate_short_code long_url' (rnd 0) 6) of
        None \<Rightarrow> (Json 500 (error_body ''Failed to generate unique short code''), d)
      | Some code \<Rightarrow>
          (case insert_url code long_url' now d of
             Inl e \<Rightarrow> (Json 500 (error_body (exc_str e)), d)
           | Inr d' \<Rightarrow> (Json 201 (created_body code long_url'), d')))"

text \<open>
  \<open>shorten_url\<close>, for the value \<open>data\<close> that \<open>request.get_json()\<close> returned, the random
  source \<open>rnd\<close> and the time \<open>now\<close> of the request. Every exception is caught by the
  handler's \<open>except Exception\<close> and becomes a response 500 with \<open>str(e)\<close>.
  \<open>long_url.startswith\<close> exists only for a string: any other value raises
  \<open>AttributeError\<close>.
\<close>

definition shorten_url :: "json \<Rightarrow> (nat \<Rightarrow> string) \<Rightarrow> nat \<Rightarrow> db \<Rightarrow> response \<times> db" where
  "shorten_url data rnd now d =
     (if \<not> truthy data then (Json 400 (error_body ''URL is required''), d)
      else case py_in ''url'' data of
        Inl e \<Rightarrow> (Json 500 (error_body (exc_str e)), d)
      | Inr False \<Rightarrow> (Json 400 (error_body ''URL is required''), d)
      | Inr True \<Rightarrow>
          (case py_getitem data ''url'' of
             Inl e \<Rightarrow> (Json 500 (error_body (exc_str e)), d)
           | Inr (JStr long_url') \<Rightarrow>
               if \<not> (startswith long_url' ''http://'' \<or> startswith long_url' ''https://'')
               then (Json 400 (error_body ''URL must start with http:// or https://''), d)
               else allocate_and_insert long_url' rnd now d
           | Inr _ \<Rightarrow>
               (Json 500 (error_body (exc_str (AttributeError ''object has no attribute startswith''))), d)))"

text \<open>
  \<open>redirect_url\<close>: the handler of \<open>GET /<short_code>\<close>. An exception of \<open>redirect\<close> is
  caught by the handler's \<open>except Exception\<close> and becomes a response 500 with \<open>str(e)\<close>.
\<close>

definition redirect_url :: "string \<Rightarrow> db \<Rightarrow> response \<times> db" where
  "redirect_url code d =
     (case select_long_url d code of
        Some url \<Rightarrow>
          (case py_redirect url of
             Inl e \<Rightarrow> (Json 500 (error_body (exc_str e)), d)
           | Inr resp \<Rightarrow> (resp, d))
      | None \<Rightarrow> (Json 404 (error_body ''Short URL not found''), d))"

definition get_stats :: "db \<Rightarrow> response \<times> db" where
  "get_stats d =
     (Json 200 (JObj [(''total_shortened_urls'', JNum (int (count_urls d))),
                     (''service'', JStr ''URL Shortener''),
                     (''version'', JStr ''1.0.0'')]), d)"

text \<open>One entry of \<open>recent_urls\<close>; the timestamp is given by its number of seconds.\<close>

definition list_entry :: "url_row \<Rightarrow> json" where
  "list_entry r =
     JObj [(''short_code'', JStr (short_code r)),
           (''long_url'', JStr (long_url r)),
           (''created_at'', JNum (int (created_at r))),
           (''short_url'', JStr (''http://localhost:5000/'' @ short_code r))]"

definition list_urls :: "db \<Rightarrow> response \<times> db" where
  "list_urls d =
     (Json 200 (JObj [(''recent_urls'', JArr (map list_entry (select_recent d))),
                     (''total_count'', JNum (int (length (select_recent d))))]), d)"

definition health_check :: "nat \<Rightarrow> db \<Rightarrow> response \<times> db" where
  "health_check now d =
     (Json 200 (JObj [(''status'', JStr ''healthy''), (''timestamp'', JNum (int now))]), d)"

text \<open>
  \<open>index\<close>: the content of \<open>index.html\<close> when the file exists, a fixed page otherwise
  (only its heading is written here).
\<close>

definition index_page :: "string option \<Rightarrow> db \<Rightarrow> response \<times> db" where
  "index_page file d =
     (case file of Some page \<Rightarrow> (Html 200 page, d) | None \<Rightarrow> (Html 200 ''URL Shortener API'', d))"

section \<open>The service as a state machine\<close>

text \<open>
  The requests, one constructor per handler, with what the handler takes from its
  environment besides the table: the parsed body, the random source and the clock for
  \<open>POST /shorten\<close>, the code for a \<open>GET\<close> that the router gives to \<open>redirect_url\<close>
  (any path of one segment other than \<open>/health\<close>, \<open>/stats\<close> and \<open>/list\<close>), the clock
  for \<open>/health\<close>, the content of \<open>index.html\<close> for \<open>/\<close>. Requests are handled one
  after the other: each handler opens the database, works and closes it. The service
  starts with \<open>init_db\<close>, as the program's main part does, so the table exists;
  failures of the database itself (an unreadable file, a full disk) are not modelled.
\<close>

datatype request =
    Shorten json "nat \<Rightarrow> string" nat
  | Visit string
  | Stats
  | ListUrls
  | Health nat
  | Index "string option"

fun handle :: "request \<Rightarrow> db \<Rightarrow> response \<times> db" where
  "handle (Shorten data rnd now) d = shorten_url data rnd now d"
| "handle (Visit code) d = redirect_url code d"
| "handle Stats d = get_stats d"
| "handle ListUrls d = list_urls d"
| "handle (Health now) d = health_check now d"
| "handle (Index file) d = index_page file d"

text \<open>
  A run of the service from a state: the responses, in the order of the requests, and the
  state after the last one.
\<close>

fun run :: "request list \<Rightarrow> db \<Rightarrow> response list \<times> db" where
  "run [] d = ([], d)"
| "run (req # reqs) d =
     (case handle req d of (resp, d') \<Rightarrow>
        (case run reqs d' of (resps, d'') \<Rightarrow> (resp # resps, d'')))"

inductive reachable :: "db \<Rightarrow> bool" where
  start: "reachable (init_db None)"
| restart: "reachable d \<Longrightarrow> reachable (init_db (Some d))"
| step: "reachable d \<Longrightarrow> reachable (snd (handle req d))"

text \<open>The short code a response 201 of \<open>/shorten\<close> carries.\<close>

fun issued_code :: "response \<Rightarrow> string option" where
  "issued_code (Json status (JObj ((k, JStr code) # rest))) =
     (if status = 201 \<and> k = ''short_code'' then Some code else None)"
| "issued_code _ = None"

definition codes :: "db \<Rightarrow> string list" where
  "codes d = map short_code (urls d)"

section \<open>Notions used in the statements\<close>

text \<open>A URL that passes the check of \<open>shorten_url\<close>.\<close>

definition valid_url :: "string \<Rightarrow> bool" where
  "valid_url u = (startswith u ''http://'' \<or> startswith u ''https://'')"

text \<open>The short codes the responses of a run carry, in the order of the responses.\<close>

fun issued_codes :: "response list \<Rightarrow> string list" where
  "issued_codes [] = []"
| "issued_codes (r # rs) =
     (case issued_code r of None \<Rightarrow> issued_codes rs | Some c \<Rightarrow> c # issued_codes rs)"

text \<open>
  The candidate that the loop of \<open>shorten_url\<close> tests in its iteration \<open>k\<close>: the code
  of the URL itself in iteration 0 and, in iteration \<open>k + 1\<close>, the code of the URL
  followed by \<open>str(k)\<close>, the number of the iteration that collided. Lemma
  \<open>collision_loop_upt\<close> below shows that the loop of the source tests exactly these.
\<close>

definition candidate :: "string \<Rightarrow> (nat \<Rightarrow> string) \<Rightarrow> nat \<Rightarrow> string" where
  "candidate u rnd k =
     generate_short_code (if k = 0 then u else u @ str_nat (k - 1)) (rnd k) 6"

text \<open>
  The specification's wording of the same, kept apart from the code: "generate a
  candidate via Code Generator(url, attempt)", where "on retry, the attempt number is
  appended to the URL before hashing", and the allocator returns the first candidate the
  table does not hold, for attempts 0 to 4.
\<close>

definition spec_candidate :: "string \<Rightarrow> (nat \<Rightarrow> string) \<Rightarrow> nat \<Rightarrow> string" where
  "spec_candidate u rnd attempt =
     generate_short_code (if attempt = 0 then u else u @ str_nat attempt) (rnd attempt) 6"

definition spec_allocate :: "string \<Rightarrow> (nat \<Rightarrow> string) \<Rightarrow> db \<Rightarrow> string option" where
  "spec_allocate u rnd d =
     map_option (spec_candidate u rnd)
       (find (\<lambda>attempt. select_id d (spec_candidate u rnd attempt) = None) [0..<5])"

text \<open>A list of timestamps each of which is strictly later than the next one.\<close>

fun strictly_descending :: "nat list \<Rightarrow> bool" where
  "strictly_descending (x # y # zs) = (y < x \<and> strictly_descending (y # zs))"
| "strictly_descending _ = True"

section \<open>Concrete requests and states\<close>

text \<open>
  A random source that always returns the same three characters, the body
  \<open>{"url": u}\<close>, and the tables that shortening \<open>http://a\<close> again and again builds from
  the empty one.
\<close>

definition rnd0 :: "nat \<Rightarrow> string" where
  "rnd0 k = ''Xy7''"

definition url_body :: "string \<Rightarrow> json" where
  "url_body u = JObj [(''url'', JStr u)]"

definition db1 :: db where
  "db1 = append_row ''82795f'' ''http://a'' 0 (init_db None)"

definition db2 :: db where
  "db2 = append_row ''115ec9'' ''http://a'' 0 db1"

definition db5 :: db where
  "db5 = append_row ''49738f'' ''http://a'' 0
           (append_row ''c54579'' ''http://a'' 0 (append_row ''660e2e'' ''http://a'' 0 db2))"

text \<open>
  A URL that \<open>shorten_url\<close> accepts and that ends in a line feed, and the table after
  shortening it from the empty one.
\<close>

definition url_nl :: string where
  "url_nl = ''http://a'' @ [CHR 0x0A]"

definition db_nl :: db where
  "db_nl = append_row ''fc1745'' url_nl 0 (init_db None)"

text \<open>A table of eleven rows whose timestamps are not in the order of the keys.\<close>

definition row :: "nat \<Rightarrow> string \<Rightarrow> nat \<Rightarrow> url_row" where
  "row i code t = \<lparr>row_id = i, short_code = code, long_url = ''http://a'', created_at = t\<rparr>"

definition db11 :: db where
  "db11 = \<lparr>urls = [row 1 ''c01'' 5, row 2 ''c02'' 3, row 3 ''c03'' 9, row 4 ''c04'' 1,
                    row 5 ''c05'' 7, row 6 ''c06'' 2, row 7 ''c07'' 8, row 8 ''c08'' 4,
                    row 9 ''c09'' 6, row 10 ''c10'' 10, row 11 ''c11'' 0], seq = 11\<rparr>"

text \<open>A table of twelve rows inserted in the same second.\<close>

definition db12 :: db where
  "db12 = \<lparr>urls = [row 1 ''t01'' 0, row 2 ''t02'' 0, row 3 ''t03'' 0, row 4 ''t04'' 0,
                    row 5 ''t05'' 0, row 6 ''t06'' 0, row 7 ''t07'' 0, row 8 ''t08'' 0,
                    row 9 ''t09'' 0, row 10 ''t10'' 0, row 11 ''t11'' 0, row 12 ''t12'' 0],
           seq = 12\<rparr>"

section \<open>Evaluating the digest\<close>

lemma upt_4: "[0..<4] = [0, 1, 2, 3]"
  by code_simp

lemma upt_5: "[0..<5] = [0, 1, 2, 3, 4]"
  by code_simp

lemma upt_8: "[0..<8] = [0, 1, 2, 3, 4, 5, 6, 7]"
  by code_simp

lemma upt_16: "[0..<16] = [0, 1, 2, 3, 4, 5, 6, 7, 8, 9, 10, 11, 12, 13, 14, 15]"
  by code_simp

lemma upt_64:
  "[0..<64] = [0, 1, 2, 3, 4, 5, 6, 7, 8, 9, 10, 11, 12, 13, 14, 15, 16, 17, 18, 19, 20, 21, 22, 23, 24, 25, 26, 27, 28, 29, 30, 31, 32, 33, 34, 35, 36, 37, 38, 39, 40, 41, 42, 43, 44, 45, 46, 47, 48, 49, 50, 51, 52, 53, 54, 55, 56, 57, 58, 59, 60, 61, 62, 63]"
  by code_simp

lemma replicate_numeral: "replicate (numeral k) x = x # replicate (pred_numeral k) x"
  by (simp add: numeral_eq_Suc)

lemma md5_table_eq:
  "md5_table =
    [(0, 0xd76aa478, 7), (1, 0xe8c7b756, 12), (2, 0x242070db, 17), (3, 0xc1bdceee, 22),
     (4, 0xf57c0faf, 7), (5, 0x4787c62a, 12), (6, 0xa8304613, 17), (7, 0xfd469501, 22),
     (8, 0x698098d8, 7), (9, 0x8b44f7af, 12), (10, 0xffff5bb1, 17), (11, 0x895cd7be, 22),
     (12, 0x6b901122, 7), (13, 0xfd987193, 12), (14, 0xa679438e, 17), (15, 0x49b40821, 22),
     (16, 0xf61e2562, 5), (17, 0xc040b340, 9), (18, 0x265e5a51, 14), (19, 0xe9b6c7aa, 20),
     (20, 0xd62f105d, 5), (21, 0x02441453, 9), (22, 0xd8a1e681, 14), (23, 0xe7d3fbc8, 20),
     (24, 0x21e1cde6, 5), (25, 0xc33707d6, 9), (26, 0xf4d50d87, 14), (27, 0x455a14ed, 20),
     (28, 0xa9e3e905, 5), (29, 0xfcefa3f8, 9), (30, 0x676f02d9, 14), (31, 0x8d2a4c8a, 20),
     (32, 0xfffa3942, 4), (33, 0x8771f681, 11), (34, 0x6d9d6122, 16), (35, 0xfde5380c, 23),
     (36, 0xa4beea44, 4), (37, 0x4bdecfa9, 11), (38, 0xf6bb4b60, 16), (39, 0xbebfbc70, 23),
     (40, 0x289b7ec6, 4), (41, 0xeaa127fa, 11), (42, 0xd4ef3085, 16), (43, 0x04881d05, 23),
     (44, 0xd9d4d039, 4), (45, 0xe6db99e5, 11), (46, 0x1fa27cf8, 16), (47, 0xc4ac5665, 23),
     (48, 0xf4292244, 6), (49, 0x432aff97, 10), (50, 0xab9423a7, 15), (51, 0xfc93a039, 21),
     (52, 0x655b59c3, 6), (53, 0x8f0ccc92, 10), (54, 0xffeff47d, 15), (55, 0x85845dd1, 21),
     (56, 0x6fa87e4f, 6), (57, 0xfe2ce6e0, 10), (58, 0xa3014314, 15), (59, 0x4e0811a1, 21),
     (60, 0xf7537e82, 6), (61, 0xbd3af235, 10), (62, 0x2ad7d2bb, 15), (63, 0xeb86d391, 21)]"
  by (simp add: md5_table_def md5_K_def md5_s_def upt_64)

lemmas md5_eval =
  md5_hexdigest_def md5_digest_def md5_pad_def md5_block_def md5_words_def md5_table_eq
  md5_F_def md5_g_def add32_def not32_def rotl32_def le_word32_def le_bytes32_def
  hex_byte_def hex_digit_def chunks64.simps upt_4 upt_8 upt_16 replicate_numeral

text \<open>The test suite of RFC 1321, section A.5.\<close>

lemma md5_empty: "md5_hexdigest [] = ''d41d8cd98f00b204e9800998ecf8427e''"
  by (simp add: md5_eval)

lemma md5_abc: "md5_hexdigest ''abc'' = ''900150983cd24fb0d6963f7d28e17f72''"
  by (simp add: md5_eval)

text \<open>The digests of one URL and of the URL with the suffixes the retry loop appends.\<close>

lemma md5_url: "md5_hexdigest ''http://a'' = ''82795f11d2315ac2703b14c5f8020886''"
  by (simp add: md5_eval)

lemma md5_url0: "md5_hexdigest ''http://a0'' = ''115ec98b3ee3b5dd6f45c5d56750864c''"
  by (simp add: md5_eval)

lemma md5_url1: "md5_hexdigest ''http://a1'' = ''660e2e629470265bd34787b107f32041''"
  by (simp add: md5_eval)

lemma md5_url2: "md5_hexdigest ''http://a2'' = ''c54579c85a1a728cb701c9c69dac2293''"
  by (simp add: md5_eval)

lemma md5_url3: "md5_hexdigest ''http://a3'' = ''49738ff6b18725799ee22c978ca84c00''"
  by (simp add: md5_eval)

lemma md5_url_nl: "md5_hexdigest url_nl = ''fc17454293ee320296205502dc0eb0d5''"
  by (simp add: url_nl_def md5_eval)

section \<open>The shape of a digest\<close>

lemma length_le_bytes32: "length (le_bytes32 w) = 4"
  by (simp add: le_bytes32_def)

lemma le_bytes32_bound: "b \<in> set (le_bytes32 w) \<Longrightarrow> b < 256"
  by (auto simp: le_bytes32_def)

lemma length_md5_out: "length (md5_out st) = 16"
  by (cases st rule: md5_out.cases) (simp add: length_le_bytes32)

lemma md5_out_bound: "b \<in> set (md5_out st) \<Longrightarrow> b < 256"
  by (cases st rule: md5_out.cases) (auto dest: le_bytes32_bound)

lemma length_md5_digest: "length (md5_digest bs) = 16"
  by (simp add: md5_digest_def length_md5_out)

lemma md5_digest_bound: "b \<in> set (md5_digest bs) \<Longrightarrow> b < 256"
  by (auto simp: md5_digest_def dest: md5_out_bound)

lemma length_concat_hex: "length (concat (map hex_byte bs)) = 2 * length bs"
  by (induction bs) (simp_all add: hex_byte_def)

lemma length_md5_hexdigest: "length (md5_hexdigest s) = 32"
  by (simp add: md5_hexdigest_def length_concat_hex length_md5_digest)

lemma hex_digit_in: "n < 16 \<Longrightarrow> hex_digit n \<in> set ''0123456789abcdef''"
  unfolding hex_digit_def by (rule nth_mem) simp

lemma hex_byte_in: "b < 256 \<Longrightarrow> set (hex_byte b) \<subseteq> set ''0123456789abcdef''"
proof -
  assume b: "b < 256"
  then have "b div 16 < 16" and "b mod 16 < 16" by simp_all
  then have "hex_digit (b div 16) \<in> set ''0123456789abcdef''"
    and "hex_digit (b mod 16) \<in> set ''0123456789abcdef''"
    by (simp_all only: hex_digit_in)
  then show ?thesis unfolding hex_byte_def by simp
qed

lemma md5_hexdigest_hex: "set (md5_hexdigest s) \<subseteq> set ''0123456789abcdef''"
proof
  fix c assume "c \<in> set (md5_hexdigest s)"
  then obtain b where b: "b \<in> set (md5_digest (map of_char s))" and c: "c \<in> set (hex_byte b)"
    unfolding md5_hexdigest_def by auto
  from b have "b < 256" by (rule md5_digest_bound)
  then have "set (hex_byte b) \<subseteq> set ''0123456789abcdef''" by (rule hex_byte_in)
  with c show "c \<in> set ''0123456789abcdef''" by blast
qed

lemma generate_short_code_md5: "generate_short_code url rc 6 = take 6 (md5_hexdigest url)"
  by (simp add: generate_short_code_def length_md5_hexdigest)

section \<open>The table\<close>

lemma find_code_None: "find (\<lambda>r. short_code r = c) rs = None \<longleftrightarrow> c \<notin> set (map short_code rs)"
  by (induction rs) auto

lemma select_id_None: "select_id d c = None \<longleftrightarrow> c \<notin> set (codes d)"
  by (simp add: select_id_def codes_def find_code_None)

lemma select_long_url_None: "select_long_url d c = None \<longleftrightarrow> c \<notin> set (codes d)"
  by (simp add: select_long_url_def codes_def find_code_None)

lemma insert_url_fresh:
  "c \<notin> set (codes d) \<Longrightarrow> insert_url c u now d = Inr (append_row c u now d)"
  by (simp add: insert_url_def append_row_def codes_def find_code_None)

lemma insert_url_present:
  "c \<in> set (codes d) \<Longrightarrow>
     insert_url c u now d = Inl (IntegrityError ''UNIQUE constraint failed: urls.short_code'')"
  by (simp add: insert_url_def codes_def find_code_None)

lemma insert_url_Inr:
  assumes "insert_url c u now d = Inr d'"
  shows "c \<notin> set (codes d) \<and> d' = append_row c u now d"
proof (cases "c \<in> set (codes d)")
  case True
  with assms show ?thesis by (simp add: insert_url_present)
next
  case False
  with assms show ?thesis by (simp add: insert_url_fresh)
qed

lemma codes_append_row: "codes (append_row c u now d) = codes d @ [c]"
  by (simp add: append_row_def codes_def)

lemma find_append_fresh:
  "c \<notin> set (map short_code rs) \<Longrightarrow> find (\<lambda>r. short_code r = c) (rs @ [r]) = (if short_code r = c then Some r else None)"
  by (induction rs) auto

lemma find_append_old:
  "find (\<lambda>r. short_code r = c) rs = Some x \<Longrightarrow> find (\<lambda>r. short_code r = c) (rs @ ys) = Some x"
  by (induction rs) (auto split: if_splits)

lemma select_long_url_append_row_new:
  "c \<notin> set (codes d) \<Longrightarrow> select_long_url (append_row c u now d) c = Some u"
  by (simp add: select_long_url_def append_row_def codes_def find_append_fresh)

lemma select_long_url_append_row_old:
  "select_long_url d c = Some u \<Longrightarrow> select_long_url (append_row c' u' now d) c = Some u"
  by (auto simp: select_long_url_def append_row_def dest: find_append_old)

lemma init_db_codes: "codes (init_db None) = []"
  by (simp add: init_db_def codes_def)

section \<open>The loop of \<open>shorten_url\<close>\<close>

lemma candidate_0: "candidate u rnd 0 = generate_short_code u (rnd 0) 6"
  by (simp add: candidate_def)

lemma candidate_Suc:
  "candidate u rnd (Suc k) = generate_short_code (u @ str_nat k) (rnd (Suc k)) 6"
  by (simp add: candidate_def)

lemma candidate_rnd: "candidate u rnd k = candidate u rnd' k"
  by (simp add: candidate_def generate_short_code_md5)

lemma candidates_eq:
  "map (candidate u rnd) [0..<5] =
     [generate_short_code u (rnd 0) 6,
      generate_short_code (u @ ''0'') (rnd 1) 6,
      generate_short_code (u @ ''1'') (rnd 2) 6,
      generate_short_code (u @ ''2'') (rnd 3) 6,
      generate_short_code (u @ ''3'') (rnd 4) 6]"
  by (simp add: upt_5 candidate_def str_nat.simps)

text \<open>
  The loop over the attempts \<open>k, \<dots>, n - 1\<close>, entered with the candidate of attempt
  \<open>k\<close>, returns the first candidate that the table does not hold.
\<close>

lemma collision_loop_upt:
  "collision_loop d u rnd [k..<n] (candidate u rnd k) =
     map_option (candidate u rnd) (find (\<lambda>i. candidate u rnd i \<notin> set (codes d)) [k..<n])"
proof (induction "n - k" arbitrary: k)
  case 0
  then show ?case by simp
next
  case (Suc m)
  then have kn: "k < n" and m: "m = n - Suc k" by simp_all
  from kn have upt: "[k..<n] = k # [Suc k..<n]" by (rule upt_conv_Cons)
  show ?case
    using Suc.hyps(1) [OF m] by (simp add: upt select_id_None candidate_Suc)
qed

lemma allocate_and_insert_eq:
  "allocate_and_insert u rnd now d =
     (case find (\<lambda>i. candidate u rnd i \<notin> set (codes d)) [0..<5] of
        None \<Rightarrow> (Json 500 (error_body ''Failed to generate unique short code''), d)
      | Some k \<Rightarrow> (Json 201 (created_body (candidate u rnd k) u),
                   append_row (candidate u rnd k) u now d))"
proof -
  have loop: "collision_loop d u rnd [0..<max_attempts] (generate_short_code u (rnd 0) 6) =
      map_option (candidate u rnd) (find (\<lambda>i. candidate u rnd i \<notin> set (codes d)) [0..<5])"
    using collision_loop_upt [of d u rnd 0 5] by (simp add: max_attempts_def candidate_0)
  show ?thesis
  proof (cases "find (\<lambda>i. candidate u rnd i \<notin> set (codes d)) [0..<5]")
    case None
    then show ?thesis by (simp add: allocate_and_insert_def loop)
  next
    case (Some k)
    then have "candidate u rnd k \<notin> set (codes d)"
      by (auto simp: find_Some_iff)
    then show ?thesis
      by (simp add: allocate_and_insert_def loop Some insert_url_fresh created_body_def)
  qed
qed

lemma shorten_url_valid:
  "map_of kvs ''url'' = Some (JStr u) \<Longrightarrow> valid_url u \<Longrightarrow>
     shorten_url (JObj kvs) rnd now d = allocate_and_insert u rnd now d"
  by (auto simp: shorten_url_def valid_url_def)

lemma shorten_url_exhausted:
  assumes "map_of kvs ''url'' = Some (JStr u)" and "valid_url u"
    and "set (map (candidate u rnd) [0..<5]) \<subseteq> set (codes d)"
  shows "shorten_url (JObj kvs) rnd now d =
           (Json 500 (error_body ''Failed to generate unique short code''), d)"
proof -
  from assms(3) have "find (\<lambda>i. candidate u rnd i \<notin> set (codes d)) [0..<5] = None"
    by (auto simp: find_None_iff)
  then have "allocate_and_insert u rnd now d =
      (Json 500 (error_body ''Failed to generate unique short code''), d)"
    by (simp add: allocate_and_insert_eq)
  with assms(1,2) show ?thesis
    by (simp add: shorten_url_valid)
qed

lemma find_upt_first:
  assumes "n < m" and "P n" and "\<forall>j<n. \<not> P j"
  shows "find P [0..<m] = Some n"
  unfolding find_Some_iff
proof (intro exI [of _ n] conjI)
  from assms(1) show "n < length [0..<m]" by simp
  from assms(1,2) show "P ([0..<m] ! n)" by simp
  from assms(1) show "n = [0..<m] ! n" by simp
  from assms(1,3) show "\<forall>j<n. \<not> P ([0..<m] ! j)" by simp
qed

section \<open>What a request does to the table\<close>

lemma issued_code_error: "issued_code (Json s (error_body m)) = None"
  by (simp add: error_body_def)

lemma issued_code_created: "issued_code (Json 201 (created_body c u)) = Some c"
  by (simp add: created_body_def)

text \<open>What a call of the allocator does to the codes of the table.\<close>

lemma allocate_and_insert_cases:
  obtains (exhausted) "allocate_and_insert u rnd now d =
              (Json 500 (error_body ''Failed to generate unique short code''), d)"
        and "\<forall>k<5. candidate u rnd k \<in> set (codes d)"
  | (created) k where "k < 5" and "candidate u rnd k \<notin> set (codes d)"
        and "\<forall>j<k. candidate u rnd j \<in> set (codes d)"
        and "allocate_and_insert u rnd now d =
              (Json 201 (created_body (candidate u rnd k) u), append_row (candidate u rnd k) u now d)"
proof (cases "find (\<lambda>i. candidate u rnd i \<notin> set (codes d)) [0..<5]")
  case None
  then have "\<forall>k<5. candidate u rnd k \<in> set (codes d)"
    by (auto simp: find_None_iff)
  with None exhausted show ?thesis
    by (simp add: allocate_and_insert_eq)
next
  case (Some k)
  then have "k < 5" and "candidate u rnd k \<notin> set (codes d)"
    and "\<forall>j<k. candidate u rnd j \<in> set (codes d)"
    by (auto simp: find_Some_iff)
  with Some created show ?thesis
    by (simp add: allocate_and_insert_eq)
qed

text \<open>
  Every response of \<open>shorten_url\<close> is an error that leaves the table as it is, or the
  result of the allocator for the string under the key \<open>url\<close>.
\<close>

lemma shorten_url_cases:
  obtains (error) s m where "shorten_url data rnd now d = (Json s (error_body m), d)" and "s \<noteq> 201"
  | (valid) u where "py_getitem data ''url'' = Inr (JStr u)" and "valid_url u"
        and "shorten_url data rnd now d = allocate_and_insert u rnd now d"
proof (cases "truthy data")
  case False
  then show ?thesis using error [of 400] by (simp add: shorten_url_def)
next
  case True
  show ?thesis
  proof (cases "py_in ''url'' data")
    case (Inl e)
    with True show ?thesis using error [of 500] by (simp add: shorten_url_def)
  next
    case (Inr b)
    show ?thesis
    proof (cases b)
      case False
      with True Inr show ?thesis using error [of 400] by (simp add: shorten_url_def)
    next
      case b: True
      show ?thesis
      proof (cases "py_getitem data ''url''")
        case (Inl e)
        with True Inr b show ?thesis using error [of 500] by (simp add: shorten_url_def)
      next
        case get: (Inr v)
        show ?thesis
        proof (cases "\<exists>u. v = JStr u")
          case False
          with True Inr b get show ?thesis using error [of 500]
            by (cases v) (simp_all add: shorten_url_def)
        next
          case True
          then obtain u where v: "v = JStr u" by blast
          show ?thesis
          proof (cases "valid_url u")
            case False
            with \<open>truthy data\<close> Inr b get v show ?thesis using error [of 400]
              by (simp add: shorten_url_def valid_url_def)
          next
            case True
            with \<open>truthy data\<close> Inr b get v show ?thesis using valid [of u]
              by (simp add: shorten_url_def valid_url_def)
          qed
        qed
      qed
    qed
  qed
qed

lemma shorten_url_issued:
  assumes "issued_code (fst (shorten_url data rnd now d)) = Some c"
  obtains u where "py_getitem data ''url'' = Inr (JStr u)" and "valid_url u"
    and "c \<notin> set (codes d)"
    and "shorten_url data rnd now d = (Json 201 (created_body c u), append_row c u now d)"
proof (cases data rnd now d rule: shorten_url_cases)
  case (error s m)
  with assms show ?thesis by (simp add: issued_code_error)
next
  case (valid u)
  show ?thesis
    using allocate_and_insert_cases [where u = u and rnd = rnd and now = now and d = d]
  proof cases
    case exhausted
    with valid assms show ?thesis by (simp add: issued_code_error)
  next
    case (created k)
    with valid assms have "c = candidate u rnd k"
      by (simp add: issued_code_created)
    with created valid that show ?thesis by simp
  qed
qed

lemma shorten_url_not_issued:
  assumes "issued_code (fst (shorten_url data rnd now d)) = None"
  shows "snd (shorten_url data rnd now d) = d"
proof (cases data rnd now d rule: shorten_url_cases)
  case (error s m)
  then show ?thesis by simp
next
  case (valid u)
  show ?thesis
    using allocate_and_insert_cases [where u = u and rnd = rnd and now = now and d = d]
  proof cases
    case exhausted
    with valid show ?thesis by simp
  next
    case (created k)
    with valid assms show ?thesis by (simp add: issued_code_created)
  qed
qed

lemma handle_not_issued:
  assumes "issued_code (fst (handle req d)) = None"
  shows "snd (handle req d) = d"
proof (cases req)
  case (Shorten data rnd now)
  with assms show ?thesis by (simp add: shorten_url_not_issued)
next
  case (Visit c)
  then show ?thesis by (simp add: redirect_url_def split: option.splits sum.splits)
next
  case (Index f)
  then show ?thesis by (simp add: index_page_def split: option.splits)
qed (simp_all add: get_stats_def list_urls_def health_check_def)

lemma handle_issued:
  assumes "issued_code (fst (handle req d)) = Some c"
  obtains u now where "c \<notin> set (codes d)" and "snd (handle req d) = append_row c u now d"
proof (cases req)
  case (Shorten data rnd now)
  with assms have "issued_code (fst (shorten_url data rnd now d)) = Some c" by simp
  then show ?thesis
    by (rule shorten_url_issued) (use Shorten that in simp)
next
  case (Visit c')
  with assms show ?thesis
    by (simp add: redirect_url_def py_redirect_def error_body_def split: option.splits if_splits)
next
  case Stats
  with assms show ?thesis by (simp add: get_stats_def)
next
  case ListUrls
  with assms show ?thesis by (simp add: list_urls_def)
next
  case (Health now)
  with assms show ?thesis by (simp add: health_check_def)
next
  case (Index f)
  with assms show ?thesis by (simp add: index_page_def split: option.splits)
qed

lemma handle_codes:
  "codes (snd (handle req d)) = codes d @ issued_codes [fst (handle req d)]"
proof (cases "issued_code (fst (handle req d))")
  case None
  then show ?thesis by (simp add: handle_not_issued)
next
  case (Some c)
  then show ?thesis
    by (rule handle_issued) (simp add: Some codes_append_row)
qed

lemma handle_distinct:
  assumes "distinct (codes d)"
  shows "distinct (codes (snd (handle req d)))"
proof (cases "issued_code (fst (handle req d))")
  case None
  with assms show ?thesis by (simp add: handle_not_issued)
next
  case (Some c)
  then show ?thesis
    by (rule handle_issued) (use assms in \<open>simp add: codes_append_row\<close>)
qed

lemma issued_codes_append: "issued_codes (xs @ ys) = issued_codes xs @ issued_codes ys"
  by (induction xs) (simp_all split: option.splits)

lemma run_Cons_snd: "snd (run (req # reqs) d) = snd (run reqs (snd (handle req d)))"
  by (simp split: prod.splits)

lemma run_Cons_fst:
  "fst (run (req # reqs) d) = fst (handle req d) # fst (run reqs (snd (handle req d)))"
  by (simp split: prod.splits)

lemma run_append:
  "run (xs @ ys) d =
     (fst (run xs d) @ fst (run ys (snd (run xs d))), snd (run ys (snd (run xs d))))"
  by (induction xs arbitrary: d) (simp_all split: prod.splits)

lemma run_codes: "codes (snd (run reqs d)) = codes d @ issued_codes (fst (run reqs d))"
proof (induction reqs arbitrary: d)
  case Nil
  then show ?case by simp
next
  case (Cons req reqs)
  obtain resp d' where h: "handle req d = (resp, d')" by (cases "handle req d")
  obtain resps d'' where r: "run reqs d' = (resps, d'')" by (cases "run reqs d'")
  from handle_codes [of req d] h have "codes d' = codes d @ issued_codes [resp]" by simp
  moreover from Cons.IH [of d'] r have "codes d'' = codes d' @ issued_codes resps" by simp
  ultimately show ?case using h r by (simp split: option.splits)
qed

lemma reachable_distinct: "reachable d \<Longrightarrow> distinct (codes d)"
proof (induction rule: reachable.induct)
  case start
  show ?case by (simp add: init_db_codes)
next
  case (restart d)
  then show ?case by (simp add: init_db_def)
next
  case (step d req)
  from step.IH show ?case by (rule handle_distinct)
qed

lemma reachable_run: "reachable d \<Longrightarrow> reachable (snd (run reqs d))"
proof (induction reqs arbitrary: d)
  case Nil
  then show ?case by simp
next
  case (Cons req reqs)
  from Cons.prems have "reachable (snd (handle req d))" by (rule reachable.step)
  then have "reachable (snd (run reqs (snd (handle req d))))" by (rule Cons.IH)
  then show ?case by (simp only: run_Cons_snd)
qed

lemma handle_keeps_url:
  assumes "select_long_url d c = Some u"
  shows "select_long_url (snd (handle req d)) c = Some u"
proof (cases "issued_code (fst (handle req d))")
  case None
  with assms show ?thesis by (simp add: handle_not_issued)
next
  case (Some c')
  then show ?thesis
    by (rule handle_issued) (use assms in \<open>simp add: select_long_url_append_row_old\<close>)
qed

lemma run_keeps_url:
  "select_long_url d c = Some u \<Longrightarrow> select_long_url (snd (run reqs d)) c = Some u"
proof (induction reqs arbitrary: d)
  case Nil
  then show ?case by simp
next
  case (Cons req reqs)
  from Cons.prems have "select_long_url (snd (handle req d)) c = Some u"
    by (rule handle_keeps_url)
  then have "select_long_url (snd (run reqs (snd (handle req d)))) c = Some u"
    by (rule Cons.IH)
  then show ?case by (simp only: run_Cons_snd)
qed

lemma redirect_url_found:
  "select_long_url d c = Some u \<Longrightarrow> \<not> has_newline u \<Longrightarrow> redirect_url c d = (Redirect 302 u, d)"
  by (simp add: redirect_url_def py_redirect_def)

lemma redirect_url_newline:
  "select_long_url d c = Some u \<Longrightarrow> has_newline u \<Longrightarrow>
     redirect_url c d =
       (Json 500 (error_body ''Header values must not contain newline characters.''), d)"
  by (simp add: redirect_url_def py_redirect_def)

lemma sorted_created_desc:
  "sorted_wrt (\<lambda>a b. created_at b \<le> created_at a) (sort_key (\<lambda>r. - int (created_at r)) rs)"
proof -
  have "sorted (map (\<lambda>r. - int (created_at r)) (sort_key (\<lambda>r. - int (created_at r)) rs))"
    by (rule sorted_sort_key)
  then show ?thesis by (simp add: sorted_map)
qed

text \<open>
  A generated code is never the name of one of the fixed routes, so \<open>GET /<code>\<close> for a
  generated code reaches \<open>redirect_url\<close>.
\<close>

lemma generate_short_code_not_route:
  "generate_short_code url rc 6 \<notin> {''health'', ''stats'', ''list'', ''shorten''}"
proof -
  have len: "length (generate_short_code url rc 6) = 6"
    by (simp add: generate_short_code_md5 length_md5_hexdigest)
  have "set (generate_short_code url rc 6) \<subseteq> set (md5_hexdigest url)"
    by (simp add: generate_short_code_md5 set_take_subset)
  also have "\<dots> \<subseteq> set ''0123456789abcdef''" by (rule md5_hexdigest_hex)
  finally have hex: "set (generate_short_code url rc 6) \<subseteq> set ''0123456789abcdef''" .
  have "generate_short_code url rc 6 \<noteq> ''health''"
  proof
    assume "generate_short_code url rc 6 = ''health''"
    with hex show False by simp
  qed
  moreover from len have "generate_short_code url rc 6 \<noteq> ''stats''"
    and "generate_short_code url rc 6 \<noteq> ''list''"
    and "generate_short_code url rc 6 \<noteq> ''shorten''"
    by auto
  ultimately show ?thesis by simp
qed

section \<open>Shortening one URL again and again\<close>

lemma shorten_next:
  assumes kv: "map_of kvs ''url'' = Some (JStr u)" and valid: "valid_url u"
    and dist: "distinct (map (candidate u rnd) [0..<5])"
    and disj: "set (map (candidate u rnd) [0..<5]) \<inter> set (codes d) = {}"
    and n: "n < 5"
    and codes: "codes dn = codes d @ map (candidate u rnd) [0..<n]"
  shows "shorten_url (JObj kvs) rnd' now dn =
           (Json 201 (created_body (candidate u rnd n) u), append_row (candidate u rnd n) u now dn)"
proof -
  have cand: "candidate u rnd' k = candidate u rnd k" for k
    by (rule candidate_rnd)
  from dist have inj: "inj_on (candidate u rnd) {0..<5}"
    by (simp add: distinct_map)
  have absent: "candidate u rnd n \<notin> set (codes dn)"
  proof
    assume "candidate u rnd n \<in> set (codes dn)"
    then consider "candidate u rnd n \<in> set (codes d)"
      | j where "j < n" and "candidate u rnd n = candidate u rnd j"
      unfolding codes by auto
    then show False
    proof cases
      case 1
      moreover from n have "candidate u rnd n \<in> set (map (candidate u rnd) [0..<5])"
        by simp
      ultimately show False using disj by blast
    next
      case (2 j)
      with inj n have "n = j" by (auto dest: inj_onD)
      with 2 show False by simp
    qed
  qed
  have present: "\<forall>j<n. \<not> candidate u rnd j \<notin> set (codes dn)"
    unfolding codes by auto
  from n absent present
  have "find (\<lambda>i. candidate u rnd i \<notin> set (codes dn)) [0..<5] = Some n"
    by (rule find_upt_first)
  then have "allocate_and_insert u rnd' now dn =
      (Json 201 (created_body (candidate u rnd n) u), append_row (candidate u rnd n) u now dn)"
    by (simp add: allocate_and_insert_eq cand)
  with kv valid show ?thesis by (simp add: shorten_url_valid)
qed

lemma run_shorten_prefix:
  assumes kv: "map_of kvs ''url'' = Some (JStr u)" and valid: "valid_url u"
    and dist: "distinct (map (candidate u rnd) [0..<5])"
    and disj: "set (map (candidate u rnd) [0..<5]) \<inter> set (codes d) = {}"
  shows "n \<le> 5 \<Longrightarrow>
    fst (run (map (\<lambda>i. Shorten (JObj kvs) (rnds i) (nows i)) [0..<n]) d) =
      map (\<lambda>i. Json 201 (created_body (candidate u rnd i) u)) [0..<n] \<and>
    codes (snd (run (map (\<lambda>i. Shorten (JObj kvs) (rnds i) (nows i)) [0..<n]) d)) =
      codes d @ map (candidate u rnd) [0..<n]"
proof (induction n)
  case 0
  show ?case by simp
next
  case (Suc n)
  let ?reqs = "map (\<lambda>i. Shorten (JObj kvs) (rnds i) (nows i)) [0..<n]"
  let ?dn = "snd (run ?reqs d)"
  from Suc have IH: "fst (run ?reqs d) = map (\<lambda>i. Json 201 (created_body (candidate u rnd i) u)) [0..<n]"
    and codes: "codes ?dn = codes d @ map (candidate u rnd) [0..<n]"
    and n: "n < 5"
    by simp_all
  from kv valid dist disj n codes
  have s: "shorten_url (JObj kvs) (rnds n) (nows n) ?dn =
      (Json 201 (created_body (candidate u rnd n) u), append_row (candidate u rnd n) u (nows n) ?dn)"
    by (rule shorten_next)
  have "run (map (\<lambda>i. Shorten (JObj kvs) (rnds i) (nows i)) [0..<Suc n]) d =
      (fst (run ?reqs d) @ [Json 201 (created_body (candidate u rnd n) u)],
       append_row (candidate u rnd n) u (nows n) ?dn)"
    by (simp add: run_append s)
  with IH codes show ?case
    by (simp add: codes_append_row)
qed

section \<open>The concrete states\<close>

lemma generate_url:
  "generate_short_code ''http://a'' rc 6 = ''82795f''"
  "generate_short_code ''http://a0'' rc 6 = ''115ec9''"
  "generate_short_code ''http://a1'' rc 6 = ''660e2e''"
  "generate_short_code ''http://a2'' rc 6 = ''c54579''"
  "generate_short_code ''http://a3'' rc 6 = ''49738f''"
  by (simp_all add: generate_short_code_md5 md5_url md5_url0 md5_url1 md5_url2 md5_url3)

lemma candidate_url:
  "candidate ''http://a'' rnd 0 = ''82795f''"
  "candidate ''http://a'' rnd (Suc 0) = ''115ec9''"
  "candidate ''http://a'' rnd 2 = ''660e2e''"
  "candidate ''http://a'' rnd 3 = ''c54579''"
  "candidate ''http://a'' rnd 4 = ''49738f''"
  by (simp_all add: candidate_def str_nat.simps generate_short_code_md5
      md5_url md5_url0 md5_url1 md5_url2 md5_url3)

lemma valid_url_a: "valid_url ''http://a''"
  by (simp add: valid_url_def startswith_def)

lemma shorten_url_body:
  "valid_url u \<Longrightarrow> shorten_url (url_body u) rnd now d = allocate_and_insert u rnd now d"
  unfolding url_body_def by (rule shorten_url_valid) simp_all

lemma codes_db1: "codes db1 = [''82795f'']"
  by (simp add: db1_def codes_append_row init_db_codes)

lemma codes_db2: "codes db2 = [''82795f'', ''115ec9'']"
  by (simp add: db2_def codes_append_row codes_db1)

lemma codes_db5: "codes db5 = [''82795f'', ''115ec9'', ''660e2e'', ''c54579'', ''49738f'']"
  by (simp add: db5_def codes_append_row codes_db2)

lemma shorten_init:
  "shorten_url (url_body ''http://a'') rnd 0 (init_db None) =
     (Json 201 (created_body ''82795f'' ''http://a''), db1)"
  by (simp add: shorten_url_body valid_url_a allocate_and_insert_eq upt_5 candidate_url
      init_db_codes db1_def)

lemma shorten_db1:
  "shorten_url (url_body ''http://a'') rnd 0 db1 =
     (Json 201 (created_body ''115ec9'' ''http://a''), db2)"
  by (simp add: shorten_url_body valid_url_a allocate_and_insert_eq upt_5 candidate_url
      codes_db1 db2_def)

lemma reachable_db1: "reachable db1"
  using reachable.step [OF reachable.start, of "Shorten (url_body ''http://a'') rnd0 0"]
  by (simp add: shorten_init)

lemma reachable_db2: "reachable db2"
  using reachable.step [OF reachable_db1, of "Shorten (url_body ''http://a'') rnd0 0"]
  by (simp add: shorten_db1)

lemma run_twice:
  "run [Shorten (url_body ''http://a'') rnd0 0, Shorten (url_body ''http://a'') rnd0 0]
     (init_db None) =
     ([Json 201 (created_body ''82795f'' ''http://a''),
       Json 201 (created_body ''115ec9'' ''http://a'')], db2)"
  by (simp add: shorten_init) (simp add: shorten_db1)

lemma urls_db2:
  "urls db2 =
     [\<lparr>row_id = 1, short_code = ''82795f'', long_url = ''http://a'', created_at = 0\<rparr>,
      \<lparr>row_id = 2, short_code = ''115ec9'', long_url = ''http://a'', created_at = 0\<rparr>]"
  by (simp add: db2_def db1_def append_row_def init_db_def)

lemma select_recent_db2:
  "select_recent db2 =
     [\<lparr>row_id = 1, short_code = ''82795f'', long_url = ''http://a'', created_at = 0\<rparr>,
      \<lparr>row_id = 2, short_code = ''115ec9'', long_url = ''http://a'', created_at = 0\<rparr>]"
  by (simp add: select_recent_def urls_db2)

lemma select_recent_db11:
  "select_recent db11 =
     [row 10 ''c10'' 10, row 3 ''c03'' 9, row 7 ''c07'' 8, row 5 ''c05'' 7, row 9 ''c09'' 6,
      row 1 ''c01'' 5, row 8 ''c08'' 4, row 2 ''c02'' 3, row 6 ''c06'' 2, row 4 ''c04'' 1]"
  by (simp add: select_recent_def db11_def row_def)

text \<open>
  Of twelve rows inserted in the same second the first ten are listed, in the order of
  their insertion.
\<close>

lemma select_recent_db12:
  "map short_code (select_recent db12) =
     [''t01'', ''t02'', ''t03'', ''t04'', ''t05'', ''t06'', ''t07'', ''t08'', ''t09'', ''t10'']"
  by (simp add: select_recent_def db12_def row_def)

lemma valid_url_nl: "valid_url url_nl"
  by (simp add: url_nl_def valid_url_def startswith_def)

lemma has_newline_url_nl: "has_newline url_nl"
  by (simp add: url_nl_def has_newline_def)

lemma not_has_newline_url: "\<not> has_newline ''http://a''"
  by (simp add: has_newline_def)

lemma shorten_nl:
  "shorten_url (url_body url_nl) rnd 0 (init_db None) =
     (Json 201 (created_body ''fc1745'' url_nl), db_nl)"
proof -
  have "candidate url_nl rnd 0 = ''fc1745''"
    by (simp add: candidate_def generate_short_code_md5 md5_url_nl)
  then show ?thesis
    by (simp add: shorten_url_body valid_url_nl allocate_and_insert_eq upt_5 init_db_codes
        db_nl_def)
qed

lemma codes_db_nl: "codes db_nl = [''fc1745'']"
  by (simp add: db_nl_def codes_append_row init_db_codes)

lemma select_long_url_db_nl: "select_long_url db_nl ''fc1745'' = Some url_nl"
  by (simp add: db_nl_def select_long_url_append_row_new init_db_codes)

lemma reachable_db_nl: "reachable db_nl"
  using reachable.step [OF reachable.start, of "Shorten (url_body url_nl) rnd0 0"]
  by (simp add: shorten_nl)

section \<open>Claims\<close>

text \<open>
  C1. Uniqueness invariant. In every reachable state of the table no two rows share a
  short code, and every request (shorten, redirect, stats, list, health, index) keeps it
  so. More precisely, for a run of requests from a reachable state \<open>d0\<close> that ends in
  \<open>d\<close>: \<open>d\<close> is reachable and its codes are pairwise distinct; they are the codes of
  \<open>d0\<close> followed by the codes the responses 201 of the run issued (from the empty table:
  exactly the codes issued so far); any further request leaves the codes distinct; so
  does any insertion that the \<open>UNIQUE\<close> column lets through; and a code that a further
  \<open>/shorten\<close> issues is none of the codes of \<open>d\<close>, that is, it differs from every code
  issued before.
\<close>

theorem short_code_unique:
  assumes "reachable d0" and "run reqs d0 = (resps, d)"
  shows "reachable d \<and> distinct (codes d) \<and>
         codes d = codes d0 @ issued_codes resps \<and>
         distinct (codes (snd (handle req d))) \<and>
         (insert_url c' u now' d = Inr d' \<longrightarrow> distinct (codes d')) \<and>
         (issued_code (fst (shorten_url data rnd now d)) = Some c \<longrightarrow> c \<notin> set (codes d))"
proof -
  from assms(1) have "reachable (snd (run reqs d0))" by (rule reachable_run)
  with assms(2) have r: "reachable d" by simp
  then have dist: "distinct (codes d)" by (rule reachable_distinct)
  then have step: "distinct (codes (snd (handle req d)))" by (rule handle_distinct)
  from run_codes [of reqs d0] assms(2) have c: "codes d = codes d0 @ issued_codes resps"
    by simp
  have ins: "distinct (codes d')" if "insert_url c' u now' d = Inr d'"
  proof -
    from that have "c' \<notin> set (codes d) \<and> d' = append_row c' u now' d"
      by (rule insert_url_Inr)
    with dist show ?thesis by (simp add: codes_append_row)
  qed
  have "c \<notin> set (codes d)" if "issued_code (fst (shorten_url data rnd now d)) = Some c"
    using that by (rule shorten_url_issued)
  with r dist step c ins show ?thesis by blast
qed

theorem short_code_unique_witness:
  "reachable (init_db None) \<and>
   run [Shorten (url_body ''http://a'') rnd0 0] (init_db None) =
     ([Json 201 (created_body ''82795f'' ''http://a'')], db1) \<and>
   reachable db1 \<and> distinct (codes db1) \<and>
   codes db1 = codes (init_db None) @ issued_codes [Json 201 (created_body ''82795f'' ''http://a'')] \<and>
   distinct (codes (snd (handle (Shorten (url_body ''http://a'') rnd0 0) db1))) \<and>
   insert_url ''115ec9'' ''http://a'' 0 db1 = Inr db2 \<and> distinct (codes db2) \<and>
   issued_code (fst (shorten_url (url_body ''http://a'') rnd0 0 db1)) = Some ''115ec9'' \<and>
   ''115ec9'' \<notin> set (codes db1)"
proof -
  have run1: "run [Shorten (url_body ''http://a'') rnd0 0] (init_db None) =
      ([Json 201 (created_body ''82795f'' ''http://a'')], db1)"
    by (simp add: shorten_init)
  have issued: "issued_code (fst (shorten_url (url_body ''http://a'') rnd0 0 db1)) = Some ''115ec9''"
    by (simp add: shorten_db1 issued_code_created)
  have ins: "insert_url ''115ec9'' ''http://a'' 0 db1 = Inr db2"
    by (simp add: insert_url_fresh codes_db1 db2_def)
  from short_code_unique [OF reachable.start run1,
      of "Shorten (url_body ''http://a'') rnd0 0" "''115ec9''" "''http://a''" 0 db2
         "url_body ''http://a''" rnd0 0 "''115ec9''"]
    run1 issued ins reachable.start
  show ?thesis by (simp add: issued_code_created init_db_codes)
qed

text \<open>
  C2, as the claim states it. The claim has \<open>GET /<c>\<close> answer with a redirect 302 to the
  original URL after every successful \<open>POST /shorten\<close> of a valid URL. The URL
  \<open>http://a\<close> followed by a line feed starts with \<open>http://\<close>, so \<open>shorten_url\<close> accepts
  and stores it and answers 201 with the code \<open>fc1745\<close>; in \<open>redirect_url\<close>,
  \<open>redirect\<close> then raises \<open>ValueError\<close> for the header value, and the handler answers
  500.
\<close>

theorem redirect_after_shorten_counterexample:
  "valid_url url_nl \<and>
   shorten_url (url_body url_nl) rnd0 0 (init_db None) =
     (Json 201 (created_body ''fc1745'' url_nl), db_nl) \<and>
   redirect_url ''fc1745'' db_nl =
     (Json 500 (error_body ''Header values must not contain newline characters.''), db_nl)"
proof -
  have "redirect_url ''fc1745'' db_nl =
      (Json 500 (error_body ''Header values must not contain newline characters.''), db_nl)"
    using select_long_url_db_nl has_newline_url_nl by (rule redirect_url_newline)
  with valid_url_nl shorten_nl [of rnd0] show ?thesis by (intro conjI)
qed

text \<open>
  C2, amended. Round trip. Inserting \<open>(code, url)\<close> succeeds exactly as \<open>append_row\<close>
  when the table does not hold the code, and whenever the insertion succeeds, looking the
  code up in the new table returns \<open>url\<close>. Consequently, when \<open>POST /shorten\<close> answers
  201 with the code \<open>c'\<close>, the request carried a string \<open>u'\<close> under \<open>url\<close>, looking
  \<open>c'\<close> up returns \<open>u'\<close>, at once and after any further requests \<open>reqs\<close>, and, provided
  \<open>u'\<close> contains no carriage return and no line feed, \<open>GET /<c'>\<close> is a redirect 302 to
  \<open>u'\<close>, at once and after any further requests.
\<close>

theorem store_lookup_roundtrip:
  "(c \<notin> set (codes d) \<longrightarrow> insert_url c u now d = Inr (append_row c u now d)) \<and>
   (insert_url c u now d = Inr d' \<longrightarrow> select_long_url d' c = Some u) \<and>
   (issued_code (fst (shorten_url data rnd now d)) = Some c' \<longrightarrow>
      (\<exists>u'. py_getitem data ''url'' = Inr (JStr u') \<and>
         select_long_url (snd (shorten_url data rnd now d)) c' = Some u' \<and>
         select_long_url (snd (run reqs (snd (shorten_url data rnd now d)))) c' = Some u' \<and>
         (\<not> has_newline u' \<longrightarrow>
            redirect_url c' (snd (shorten_url data rnd now d)) =
              (Redirect 302 u', snd (shorten_url data rnd now d)) \<and>
            fst (redirect_url c' (snd (run reqs (snd (shorten_url data rnd now d))))) =
              Redirect 302 u')))"
proof (intro conjI impI)
  assume "c \<notin> set (codes d)"
  then show "insert_url c u now d = Inr (append_row c u now d)" by (rule insert_url_fresh)
next
  assume "insert_url c u now d = Inr d'"
  then have "c \<notin> set (codes d) \<and> d' = append_row c u now d" by (rule insert_url_Inr)
  then show "select_long_url d' c = Some u" by (simp add: select_long_url_append_row_new)
next
  assume "issued_code (fst (shorten_url data rnd now d)) = Some c'"
  then obtain u' where get: "py_getitem data ''url'' = Inr (JStr u')"
    and fresh: "c' \<notin> set (codes d)"
    and res: "shorten_url data rnd now d = (Json 201 (created_body c' u'), append_row c' u' now d)"
    by (rule shorten_url_issued)
  let ?d' = "snd (shorten_url data rnd now d)"
  from fresh res have look: "select_long_url ?d' c' = Some u'"
    by (simp add: select_long_url_append_row_new)
  then have later: "select_long_url (snd (run reqs ?d')) c' = Some u'"
    by (rule run_keeps_url)
  have "redirect_url c' ?d' = (Redirect 302 u', ?d') \<and>
      fst (redirect_url c' (snd (run reqs ?d'))) = Redirect 302 u'" if "\<not> has_newline u'"
    using look later that by (simp add: redirect_url_found)
  with get look later show "\<exists>u'. py_getitem data ''url'' = Inr (JStr u') \<and>
         select_long_url ?d' c' = Some u' \<and>
         select_long_url (snd (run reqs ?d')) c' = Some u' \<and>
         (\<not> has_newline u' \<longrightarrow>
            redirect_url c' ?d' = (Redirect 302 u', ?d') \<and>
            fst (redirect_url c' (snd (run reqs ?d'))) = Redirect 302 u')"
    by blast
qed

theorem store_lookup_roundtrip_witness:
  "''82795f'' \<notin> set (codes (init_db None)) \<and>
   insert_url ''82795f'' ''http://a'' 0 (init_db None) = Inr db1 \<and>
   select_long_url db1 ''82795f'' = Some ''http://a'' \<and>
   issued_code (fst (shorten_url (url_body ''http://a'') rnd0 0 (init_db None))) = Some ''82795f'' \<and>
   py_getitem (url_body ''http://a'') ''url'' = Inr (JStr ''http://a'') \<and>
   select_long_url
     (snd (run [Shorten (url_body ''http://a'') rnd0 0, Stats] db1)) ''82795f'' =
     Some ''http://a'' \<and>
   \<not> has_newline ''http://a'' \<and>
   redirect_url ''82795f'' db1 = (Redirect 302 ''http://a'', db1) \<and>
   fst (redirect_url ''82795f'' (snd (run [Shorten (url_body ''http://a'') rnd0 0, Stats] db1))) =
     Redirect 302 ''http://a''"
proof -
  have fresh: "''82795f'' \<notin> set (codes (init_db None))" by (simp add: init_db_codes)
  have issued: "issued_code (fst (shorten_url (url_body ''http://a'') rnd0 0 (init_db None))) = Some ''82795f''"
    by (simp add: shorten_init issued_code_created)
  have get: "py_getitem (url_body ''http://a'') ''url'' = Inr (JStr ''http://a'')"
    by (simp add: url_body_def)
  from store_lookup_roundtrip [of "''82795f''" "init_db None" "''http://a''" 0 db1
      "url_body ''http://a''" rnd0 "''82795f''" "[Shorten (url_body ''http://a'') rnd0 0, Stats]"]
    fresh issued get not_has_newline_url
  show ?thesis by (simp add: db1_def shorten_init)
qed

text \<open>
  C3. Allocation exhaustion is atomic. For a body with a valid URL under \<open>url\<close>: when
  the five codes the loop tests (of the URL and of the URL followed by 0, 1, 2, 3) are all
  in the table, \<open>POST /shorten\<close> answers 500 with the error message
  "Failed to generate unique short code" and the table is the one before the request.
\<close>

theorem allocation_exhausted_atomic:
  assumes "map_of kvs ''url'' = Some (JStr u)" and "valid_url u"
    and "set [generate_short_code u (rnd 0) 6,
              generate_short_code (u @ ''0'') (rnd 1) 6,
              generate_short_code (u @ ''1'') (rnd 2) 6,
              generate_short_code (u @ ''2'') (rnd 3) 6,
              generate_short_code (u @ ''3'') (rnd 4) 6] \<subseteq> set (codes d)"
  shows "shorten_url (JObj kvs) rnd now d =
           (Json 500 (JObj [(''error'', JStr ''Failed to generate unique short code'')]), d)"
proof -
  from assms(3) have "set (map (candidate u rnd) [0..<5]) \<subseteq> set (codes d)"
    by (simp only: candidates_eq)
  with assms(1,2) have "shorten_url (JObj kvs) rnd now d =
      (Json 500 (error_body ''Failed to generate unique short code''), d)"
    by (rule shorten_url_exhausted)
  then show ?thesis by (simp add: error_body_def)
qed

theorem allocation_exhausted_atomic_witness:
  "map_of [(''url'', JStr ''http://a'')] ''url'' = Some (JStr ''http://a'') \<and>
   valid_url ''http://a'' \<and>
   set [generate_short_code ''http://a'' (rnd0 0) 6,
        generate_short_code (''http://a'' @ ''0'') (rnd0 1) 6,
        generate_short_code (''http://a'' @ ''1'') (rnd0 2) 6,
        generate_short_code (''http://a'' @ ''2'') (rnd0 3) 6,
        generate_short_code (''http://a'' @ ''3'') (rnd0 4) 6] \<subseteq> set (codes db5) \<and>
   shorten_url (JObj [(''url'', JStr ''http://a'')]) rnd0 9 db5 =
     (Json 500 (JObj [(''error'', JStr ''Failed to generate unique short code'')]), db5)"
proof -
  have kv: "map_of [(''url'', JStr ''http://a'')] ''url'' = Some (JStr ''http://a'')"
    by simp
  have present: "set [generate_short_code ''http://a'' (rnd0 0) 6,
        generate_short_code (''http://a'' @ ''0'') (rnd0 1) 6,
        generate_short_code (''http://a'' @ ''1'') (rnd0 2) 6,
        generate_short_code (''http://a'' @ ''2'') (rnd0 3) 6,
        generate_short_code (''http://a'' @ ''3'') (rnd0 4) 6] \<subseteq> set (codes db5)"
    by (simp add: generate_url codes_db5)
  from allocation_exhausted_atomic [OF kv valid_url_a present, of 9] kv valid_url_a present
  show ?thesis by simp
qed

text \<open>
  C4, as the claim states it. The claim has the allocator test
  \<open>Code Generator(url, attempt)\<close> for attempt 0 to 4, the attempt number being appended to
  the URL on a retry: the candidates of \<open>u\<close>, \<open>u1\<close>, \<open>u2\<close>, \<open>u3\<close>, \<open>u4\<close>. The source
  appends the number of the attempt that has just collided. In the table that holds only
  the code of \<open>http://a\<close>, \<open>shorten_url\<close> issues the code of \<open>http://a0\<close>, where the
  allocator of the claim returns the code of \<open>http://a1\<close>.
\<close>

theorem allocator_attempt_suffix_counterexample:
  "issued_code (fst (shorten_url (url_body ''http://a'') rnd0 0 db1)) = Some ''115ec9'' \<and>
   generate_short_code ''http://a0'' (rnd0 1) 6 = ''115ec9'' \<and>
   spec_allocate ''http://a'' rnd0 db1 = Some ''660e2e'' \<and>
   generate_short_code ''http://a1'' (rnd0 1) 6 = ''660e2e''"
proof -
  have "spec_candidate ''http://a'' rnd0 0 = ''82795f''"
    and "spec_candidate ''http://a'' rnd0 (Suc 0) = ''660e2e''"
    by (simp_all add: spec_candidate_def str_nat.simps generate_url)
  then have "spec_allocate ''http://a'' rnd0 db1 = Some ''660e2e''"
    by (simp add: spec_allocate_def upt_5 select_id_None codes_db1)
  then show ?thesis
    by (simp add: shorten_db1 issued_code_created generate_url)
qed

text \<open>
  C4, amended. For a body with a valid URL \<open>u\<close> under \<open>url\<close>, the allocator tests the
  candidates in the order: the code of \<open>u\<close>, then the codes of \<open>u\<close> followed by 0, 1,
  2, 3 (on the retry after attempt \<open>k\<close> collided, the number \<open>k\<close> is appended to the URL
  before hashing). It inserts the first candidate that the table does not hold and answers
  201 with it; it answers 500 with "Failed to generate unique short code", leaving the
  table as it is, exactly when all five candidates are in the table.
\<close>

theorem allocator_steps:
  assumes "map_of kvs ''url'' = Some (JStr u)" and "valid_url u"
  shows "map (candidate u rnd) [0..<5] =
           [generate_short_code u (rnd 0) 6,
            generate_short_code (u @ ''0'') (rnd 1) 6,
            generate_short_code (u @ ''1'') (rnd 2) 6,
            generate_short_code (u @ ''2'') (rnd 3) 6,
            generate_short_code (u @ ''3'') (rnd 4) 6] \<and>
         shorten_url (JObj kvs) rnd now d =
           (case find (\<lambda>k. candidate u rnd k \<notin> set (codes d)) [0..<5] of
              None \<Rightarrow> (Json 500 (error_body ''Failed to generate unique short code''), d)
            | Some k \<Rightarrow> (Json 201 (created_body (candidate u rnd k) u),
                         append_row (candidate u rnd k) u now d)) \<and>
         (fst (shorten_url (JObj kvs) rnd now d) =
              Json 500 (error_body ''Failed to generate unique short code'') \<longleftrightarrow>
            set (map (candidate u rnd) [0..<5]) \<subseteq> set (codes d))"
proof -
  let ?f = "find (\<lambda>k. candidate u rnd k \<notin> set (codes d)) [0..<5]"
  from assms have s: "shorten_url (JObj kvs) rnd now d = allocate_and_insert u rnd now d"
    by (rule shorten_url_valid)
  have iff: "fst (allocate_and_insert u rnd now d) =
      Json 500 (error_body ''Failed to generate unique short code'') \<longleftrightarrow>
      set (map (candidate u rnd) [0..<5]) \<subseteq> set (codes d)"
  proof (cases ?f)
    case None
    then have "set (map (candidate u rnd) [0..<5]) \<subseteq> set (codes d)"
      by (auto simp: find_None_iff)
    with None show ?thesis by (simp add: allocate_and_insert_eq)
  next
    case (Some k)
    then have "k \<in> set [0..<5]" and "candidate u rnd k \<notin> set (codes d)"
      by (auto simp: find_Some_iff)
    then have "candidate u rnd k \<in> set (map (candidate u rnd) [0..<5])"
      and "candidate u rnd k \<notin> set (codes d)"
      by (simp_all del: set_upt)
    then have "\<not> set (map (candidate u rnd) [0..<5]) \<subseteq> set (codes d)"
      by blast
    with Some show ?thesis by (simp add: allocate_and_insert_eq)
  qed
  have a: "shorten_url (JObj kvs) rnd now d =
      (case ?f of
         None \<Rightarrow> (Json 500 (error_body ''Failed to generate unique short code''), d)
       | Some k \<Rightarrow> (Json 201 (created_body (candidate u rnd k) u),
                    append_row (candidate u rnd k) u now d))"
    by (simp only: s allocate_and_insert_eq)
  have b: "fst (shorten_url (JObj kvs) rnd now d) =
      Json 500 (error_body ''Failed to generate unique short code'') \<longleftrightarrow>
      set (map (candidate u rnd) [0..<5]) \<subseteq> set (codes d)"
    by (simp only: s iff)
  show ?thesis
    by (rule conjI [OF candidates_eq conjI [OF a b]])
qed

theorem allocator_steps_witness:
  "map_of [(''url'', JStr ''http://a'')] ''url'' = Some (JStr ''http://a'') \<and>
   valid_url ''http://a'' \<and>
   map (candidate ''http://a'' rnd0) [0..<5] =
     [''82795f'', ''115ec9'', ''660e2e'', ''c54579'', ''49738f''] \<and>
   shorten_url (JObj [(''url'', JStr ''http://a'')]) rnd0 0 db1 =
     (Json 201 (created_body ''115ec9'' ''http://a''), db2) \<and>
   fst (shorten_url (JObj [(''url'', JStr ''http://a'')]) rnd0 0 db1) \<noteq>
     Json 500 (error_body ''Failed to generate unique short code'')"
proof -
  have kv: "map_of [(''url'', JStr ''http://a'')] ''url'' = Some (JStr ''http://a'')"
    by simp
  from allocator_steps [OF kv valid_url_a, of rnd0 0 db1] kv valid_url_a
  show ?thesis
    by (simp add: upt_5 candidate_url codes_db1 db2_def generate_url)
qed

text \<open>
  C5. Validation rejects without touching storage: the claim has every request whose
  body lacks a \<open>url\<close> field answered with 400. The source tests
  \<open>not data or 'url' not in data\<close>. For the body \<open>1\<close>, a JSON number, which has no
  field \<open>url\<close>, \<open>not data\<close> is false and \<open>'url' not in data\<close> raises \<open>TypeError\<close>
  (a number is not iterable), which the handler's \<open>except Exception\<close> turns into a
  response 500. The table is left as it is.
\<close>

theorem shorten_url_non_object_body:
  "shorten_url (JNum 1) rnd now d =
     (Json 500 (JObj [(''error'', JStr ''argument of type int is not iterable'')]), d)"
  by (simp add: shorten_url_def error_body_def)

text \<open>
  Other bodies that end in a response 500: \<open>true\<close>; the array \<open>["url"]\<close> and the
  string \<open>"my url"\<close>, which pass the test and fail at \<open>data['url']\<close>; an object whose
  \<open>url\<close> is no string. And the part of the claim that holds: a JSON object that has no
  key \<open>url\<close>, or has a string under it that starts with neither \<open>http://\<close> nor
  \<open>https://\<close>, is answered with 400 and an error body, whatever the table holds, and the
  table is left as it is.
\<close>

lemma shorten_url_other_bodies:
  "fst (shorten_url (JBool True) rnd now d) =
     Json 500 (error_body ''argument of type bool is not iterable'')"
  "fst (shorten_url (JArr [JStr ''url'']) rnd now d) =
     Json 500 (error_body ''list indices must be integers or slices, not str'')"
  "fst (shorten_url (JStr ''my url'') rnd now d) =
     Json 500 (error_body ''string indices must be integers, not str'')"
  "fst (shorten_url (JObj [(''url'', JNum 5)]) rnd now d) =
     Json 500 (error_body ''object has no attribute startswith'')"
  by (simp_all add: shorten_url_def startswith_def)

lemma shorten_url_rejects_object:
  assumes "map_of kvs ''url'' = None \<or>
           (\<exists>u. map_of kvs ''url'' = Some (JStr u) \<and> \<not> valid_url u)"
  shows "\<exists>m. \<forall>d. shorten_url (JObj kvs) rnd now d = (Json 400 (error_body m), d)"
  using assms by (auto simp: shorten_url_def valid_url_def)

text \<open>
  C6, as the claim states it. The claim has \<open>GET /<code>\<close> answer with a redirect 302 for
  every code the table holds. The table reached by shortening \<open>http://a\<close> followed by a
  line feed holds the code \<open>fc1745\<close>, and \<open>redirect_url\<close> answers 500 for it:
  \<open>redirect\<close> raises \<open>ValueError\<close> for the header value.
\<close>

theorem present_code_counterexample:
  "reachable db_nl \<and> ''fc1745'' \<in> set (codes db_nl) \<and>
   fst (redirect_url ''fc1745'' db_nl) =
     Json 500 (JObj [(''error'', JStr ''Header values must not contain newline characters.'')])"
proof -
  have "redirect_url ''fc1745'' db_nl =
      (Json 500 (error_body ''Header values must not contain newline characters.''), db_nl)"
    using select_long_url_db_nl has_newline_url_nl by (rule redirect_url_newline)
  then have "fst (redirect_url ''fc1745'' db_nl) =
      Json 500 (JObj [(''error'', JStr ''Header values must not contain newline characters.'')])"
    by (simp add: error_body_def)
  moreover have "''fc1745'' \<in> set (codes db_nl)" by (simp add: codes_db_nl)
  ultimately show ?thesis using reachable_db_nl by (intro conjI)
qed

text \<open>
  C6, amended. Unknown-code lookup. For a code that no row of the table has,
  \<open>redirect_url\<close>, the handler of \<open>GET /<code>\<close>, answers 404 with a JSON body whose field
  \<open>error\<close> is a string, and no redirect; for a code that a row has, the lookup returns
  the long URL of such a row and, provided that URL contains no carriage return and no
  line feed, the handler answers with a redirect 302 to it. Neither changes the table.
\<close>

theorem unknown_code_lookup:
  "(c \<notin> set (codes d) \<longrightarrow>
      redirect_url c d = (Json 404 (JObj [(''error'', JStr ''Short URL not found'')]), d)) \<and>
   (c \<in> set (codes d) \<longrightarrow>
      (\<exists>r. r \<in> set (urls d) \<and> short_code r = c \<and>
         select_long_url d c = Some (long_url r) \<and>
         (\<not> has_newline (long_url r) \<longrightarrow>
            redirect_url c d = (Redirect 302 (long_url r), d))))"
proof (intro conjI impI)
  assume "c \<notin> set (codes d)"
  then have "select_long_url d c = None" by (simp add: select_long_url_None)
  then show "redirect_url c d = (Json 404 (JObj [(''error'', JStr ''Short URL not found'')]), d)"
    by (simp add: redirect_url_def error_body_def)
next
  assume "c \<in> set (codes d)"
  then have "find (\<lambda>r. short_code r = c) (urls d) \<noteq> None"
    by (simp add: find_code_None codes_def)
  then obtain r where f: "find (\<lambda>r. short_code r = c) (urls d) = Some r" by blast
  then have r: "r \<in> set (urls d)" "short_code r = c"
    by (auto simp: find_Some_iff)
  from f have look: "select_long_url d c = Some (long_url r)"
    by (simp add: select_long_url_def)
  have "redirect_url c d = (Redirect 302 (long_url r), d)" if "\<not> has_newline (long_url r)"
    using look that by (rule redirect_url_found)
  with r look show "\<exists>r. r \<in> set (urls d) \<and> short_code r = c \<and>
      select_long_url d c = Some (long_url r) \<and>
      (\<not> has_newline (long_url r) \<longrightarrow> redirect_url c d = (Redirect 302 (long_url r), d))"
    by blast
qed

theorem unknown_code_lookup_witness:
  "''ffffff'' \<notin> set (codes db1) \<and>
   redirect_url ''ffffff'' db1 = (Json 404 (JObj [(''error'', JStr ''Short URL not found'')]), db1) \<and>
   ''82795f'' \<in> set (codes db1) \<and>
   select_long_url db1 ''82795f'' = Some ''http://a'' \<and>
   \<not> has_newline ''http://a'' \<and>
   redirect_url ''82795f'' db1 = (Redirect 302 ''http://a'', db1)"
proof -
  have absent: "''ffffff'' \<notin> set (codes db1)" and present: "''82795f'' \<in> set (codes db1)"
    by (simp_all add: codes_db1)
  have look: "select_long_url db1 ''82795f'' = Some ''http://a''"
    by (simp add: db1_def select_long_url_append_row_new init_db_codes)
  from unknown_code_lookup [of "''ffffff''" db1] unknown_code_lookup [of "''82795f''" db1]
    absent present look not_has_newline_url
  show ?thesis by auto
qed

text \<open>
  C7. Shortening is not idempotent. When the same body is sent to \<open>POST /shorten\<close> twice
  in succession and both requests answer 201, the two codes differ, and the table has
  two new rows, with different keys and the two codes, both for the URL of the body:
  nothing is deduplicated by URL.
\<close>

theorem shortening_not_idempotent:
  assumes "shorten_url data rnd1 now1 d = (r1, d1)"
    and "shorten_url data rnd2 now2 d1 = (r2, d2)"
    and "issued_code r1 = Some c1" and "issued_code r2 = Some c2"
  shows "c1 \<noteq> c2 \<and>
         (\<exists>u. py_getitem data ''url'' = Inr (JStr u) \<and>
            urls d2 = urls d @
              [\<lparr>row_id = Suc (seq d), short_code = c1, long_url = u, created_at = now1\<rparr>,
               \<lparr>row_id = Suc (Suc (seq d)), short_code = c2, long_url = u, created_at = now2\<rparr>])"
proof -
  from assms(1,3) have "issued_code (fst (shorten_url data rnd1 now1 d)) = Some c1" by simp
  then obtain u where get: "py_getitem data ''url'' = Inr (JStr u)"
    and s1: "shorten_url data rnd1 now1 d = (Json 201 (created_body c1 u), append_row c1 u now1 d)"
    by (rule shorten_url_issued)
  from s1 assms(1) have d1: "d1 = append_row c1 u now1 d" by simp
  from assms(2,4) have "issued_code (fst (shorten_url data rnd2 now2 d1)) = Some c2" by simp
  then obtain u' where get': "py_getitem data ''url'' = Inr (JStr u')"
    and fresh: "c2 \<notin> set (codes d1)"
    and s2: "shorten_url data rnd2 now2 d1 = (Json 201 (created_body c2 u'), append_row c2 u' now2 d1)"
    by (rule shorten_url_issued)
  from get get' have u': "u' = u" by simp
  from fresh d1 have neq: "c1 \<noteq> c2" by (auto simp: codes_append_row)
  from s2 assms(2) u' d1 have "d2 = append_row c2 u now2 (append_row c1 u now1 d)" by simp
  then have "urls d2 = urls d @
      [\<lparr>row_id = Suc (seq d), short_code = c1, long_url = u, created_at = now1\<rparr>,
       \<lparr>row_id = Suc (Suc (seq d)), short_code = c2, long_url = u, created_at = now2\<rparr>]"
    by (simp add: append_row_def)
  with neq get show ?thesis by blast
qed

theorem shortening_not_idempotent_witness:
  "shorten_url (url_body ''http://a'') rnd0 0 (init_db None) =
     (Json 201 (created_body ''82795f'' ''http://a''), db1) \<and>
   shorten_url (url_body ''http://a'') rnd0 0 db1 =
     (Json 201 (created_body ''115ec9'' ''http://a''), db2) \<and>
   issued_code (Json 201 (created_body ''82795f'' ''http://a'')) = Some ''82795f'' \<and>
   issued_code (Json 201 (created_body ''115ec9'' ''http://a'')) = Some ''115ec9'' \<and>
   ''82795f'' \<noteq> ''115ec9'' \<and>
   urls db2 =
     [\<lparr>row_id = 1, short_code = ''82795f'', long_url = ''http://a'', created_at = 0\<rparr>,
      \<lparr>row_id = 2, short_code = ''115ec9'', long_url = ''http://a'', created_at = 0\<rparr>]"
proof -
  note s = shortening_not_idempotent [OF shorten_init [of rnd0] shorten_db1 [of rnd0]
      issued_code_created issued_code_created]
  have "urls db2 =
     [\<lparr>row_id = 1, short_code = ''82795f'', long_url = ''http://a'', created_at = 0\<rparr>,
      \<lparr>row_id = 2, short_code = ''115ec9'', long_url = ''http://a'', created_at = 0\<rparr>]"
    by (simp add: db2_def db1_def append_row_def init_db_def)
  with s show ?thesis
    by (simp add: shorten_init shorten_db1 issued_code_created)
qed

text \<open>
  C8, as the claim states it. The claim has the records of \<open>/list\<close> ordered strictly by
  descending \<open>created_at\<close>. Two requests to \<open>/shorten\<close> in the same second give two rows
  with the same timestamp, and \<open>/list\<close> returns both: their timestamps are not strictly
  descending.
\<close>

theorem list_order_counterexample:
  "run [Shorten (url_body ''http://a'') rnd0 0, Shorten (url_body ''http://a'') rnd0 0]
     (init_db None) =
     ([Json 201 (created_body ''82795f'' ''http://a''),
       Json 201 (created_body ''115ec9'' ''http://a'')], db2) \<and>
   map short_code (select_recent db2) = [''82795f'', ''115ec9''] \<and>
   map created_at (select_recent db2) = [0, 0] \<and>
   \<not> strictly_descending (map created_at (select_recent db2))"
proof -
  have c: "map short_code (select_recent db2) = [''82795f'', ''115ec9'']"
    by (simp add: select_recent_db2)
  have m: "map created_at (select_recent db2) = [0, 0]"
    by (simp add: select_recent_db2)
  then have "\<not> strictly_descending (map created_at (select_recent db2))"
    by simp
  with run_twice c m show ?thesis by (intro conjI)
qed

text \<open>
  C8, amended. For every table, \<open>GET /list\<close> answers 200 with the records
  \<open>select_recent\<close> returns and their number; each record carries \<open>short_code\<close>,
  \<open>long_url\<close>, \<open>created_at\<close> and the \<open>short_url\<close> made of
  \<open>http://localhost:5000/\<close> and the code; they are rows of the table, at most 10 of them;
  and they are ordered by descending \<open>created_at\<close>, most recent first, though not
  strictly: the timestamps never increase along the list, and equal timestamps may follow
  one another.
\<close>

theorem list_urls_contract:
  "list_urls d =
     (Json 200 (JObj [(''recent_urls'', JArr (map list_entry (select_recent d))),
                     (''total_count'', JNum (int (length (select_recent d))))]), d) \<and>
   list_entry r =
     JObj [(''short_code'', JStr (short_code r)),
           (''long_url'', JStr (long_url r)),
           (''created_at'', JNum (int (created_at r))),
           (''short_url'', JStr (''http://localhost:5000/'' @ short_code r))] \<and>
   set (select_recent d) \<subseteq> set (urls d) \<and>
   length (select_recent d) \<le> 10 \<and>
   sorted (rev (map created_at (select_recent d)))"
proof -
  let ?xs = "sort_key (\<lambda>r. - int (created_at r)) (urls d)"
  have "sorted_wrt (\<lambda>a b. created_at b \<le> created_at a) ?xs"
    by (rule sorted_created_desc)
  then have "sorted_wrt (\<lambda>a b. created_at b \<le> created_at a) (take 10 ?xs)"
    by (rule sorted_wrt_take)
  then have "sorted_wrt (\<lambda>a b. created_at a \<le> created_at b) (rev (select_recent d))"
    by (simp add: sorted_wrt_rev select_recent_def)
  then have srt: "sorted (rev (map created_at (select_recent d)))"
    by (simp add: rev_map sorted_map)
  have "set (take 10 ?xs) \<subseteq> set ?xs" by (rule set_take_subset)
  then have sub: "set (select_recent d) \<subseteq> set (urls d)"
    by (simp add: select_recent_def)
  have len: "length (select_recent d) \<le> 10"
    by (simp add: select_recent_def)
  have resp: "list_urls d =
     (Json 200 (JObj [(''recent_urls'', JArr (map list_entry (select_recent d))),
                     (''total_count'', JNum (int (length (select_recent d))))]), d)"
    by (simp add: list_urls_def)
  have entry: "list_entry r =
     JObj [(''short_code'', JStr (short_code r)),
           (''long_url'', JStr (long_url r)),
           (''created_at'', JNum (int (created_at r))),
           (''short_url'', JStr (''http://localhost:5000/'' @ short_code r))]"
    by (simp add: list_entry_def)
  from resp entry sub len srt show ?thesis by (intro conjI)
qed

theorem list_urls_contract_witness:
  "fst (list_urls db11) =
     Json 200 (JObj [(''recent_urls'', JArr (map list_entry (select_recent db11))),
                     (''total_count'', JNum 10)]) \<and>
   list_entry (row 10 ''c10'' 10) =
     JObj [(''short_code'', JStr ''c10''),
           (''long_url'', JStr ''http://a''),
           (''created_at'', JNum 10),
           (''short_url'', JStr ''http://localhost:5000/c10'')] \<and>
   length (urls db11) = 11 \<and>
   length (select_recent db11) = 10 \<and>
   map created_at (select_recent db11) = [10, 9, 8, 7, 6, 5, 4, 3, 2, 1] \<and>
   sorted (rev (map created_at (select_recent db11)))"
proof -
  have m: "map created_at (select_recent db11) = [10, 9, 8, 7, 6, 5, 4, 3, 2, 1]"
    by (simp add: select_recent_db11 row_def)
  have l: "length (select_recent db11) = 10"
    by (simp add: select_recent_db11)
  have l': "length (urls db11) = 11"
    by (simp add: db11_def)
  have e: "short_code (row 10 ''c10'' 10) = ''c10''" "long_url (row 10 ''c10'' 10) = ''http://a''"
    "created_at (row 10 ''c10'' 10) = 10"
    by (simp_all add: row_def)
  from list_urls_contract [of db11 "row 10 ''c10'' 10"] m l l' e
  show ?thesis by simp
qed

text \<open>
  C9. The code generator is deterministic although it draws random characters: for the
  default length 6, \<open>generate_short_code(url)\<close> is the first 6 characters of the MD5 hex
  digest of \<open>url\<close>, it has exactly 6 characters, all of them lowercase hexadecimal
  digits, and the 3 random characters never reach the output, because the 32 characters
  of the digest alone fill it: two runs on the same URL give the same code whatever the
  random source returns.
\<close>

theorem generate_short_code_deterministic:
  "generate_short_code url random_chars 6 = take 6 (md5_hexdigest url) \<and>
   length (md5_hexdigest url) = 32 \<and>
   length (generate_short_code url random_chars 6) = 6 \<and>
   set (generate_short_code url random_chars 6) \<subseteq> set ''0123456789abcdef'' \<and>
   generate_short_code url random_chars 6 = generate_short_code url random_chars' 6"
proof -
  have "set (take 6 (md5_hexdigest url)) \<subseteq> set (md5_hexdigest url)"
    by (rule set_take_subset)
  also have "\<dots> \<subseteq> set ''0123456789abcdef''"
    by (rule md5_hexdigest_hex)
  finally show ?thesis
    by (simp only: generate_short_code_md5 length_md5_hexdigest length_take) simp
qed

text \<open>
  C10. Repeated shortening of one URL exhausts the retry budget. For a body with a valid
  URL under \<open>url\<close> whose five candidate codes (of the URL and of the URL followed by 0,
  1, 2, 3) are pairwise distinct and not in the table: five requests
  \<open>POST /shorten\<close> in succession, whatever the random source and the clock give, answer
  201 with the five candidates in that order and append them to the table, and the sixth
  request answers 500 with "Failed to generate unique short code" and leaves the table
  as it is.
\<close>

theorem repeated_shortening_exhausts:
  fixes rnd :: "nat \<Rightarrow> string"
  assumes "map_of kvs ''url'' = Some (JStr u)" and "valid_url u"
    and "distinct [generate_short_code u (rnd 0) 6,
                   generate_short_code (u @ ''0'') (rnd 1) 6,
                   generate_short_code (u @ ''1'') (rnd 2) 6,
                   generate_short_code (u @ ''2'') (rnd 3) 6,
                   generate_short_code (u @ ''3'') (rnd 4) 6]"
    and "set [generate_short_code u (rnd 0) 6,
              generate_short_code (u @ ''0'') (rnd 1) 6,
              generate_short_code (u @ ''1'') (rnd 2) 6,
              generate_short_code (u @ ''2'') (rnd 3) 6,
              generate_short_code (u @ ''3'') (rnd 4) 6] \<inter> set (codes d) = {}"
  shows "\<exists>d5.
     run (map (\<lambda>i. Shorten (JObj kvs) (rnds i) (nows i)) [0..<5]) d =
       (map (\<lambda>c. Json 201 (created_body c u))
          [generate_short_code u (rnd 0) 6,
           generate_short_code (u @ ''0'') (rnd 1) 6,
           generate_short_code (u @ ''1'') (rnd 2) 6,
           generate_short_code (u @ ''2'') (rnd 3) 6,
           generate_short_code (u @ ''3'') (rnd 4) 6], d5) \<and>
     codes d5 = codes d @
          [generate_short_code u (rnd 0) 6,
           generate_short_code (u @ ''0'') (rnd 1) 6,
           generate_short_code (u @ ''1'') (rnd 2) 6,
           generate_short_code (u @ ''2'') (rnd 3) 6,
           generate_short_code (u @ ''3'') (rnd 4) 6] \<and>
     shorten_url (JObj kvs) (rnds 5) (nows 5) d5 =
       (Json 500 (JObj [(''error'', JStr ''Failed to generate unique short code'')]), d5)"
proof -
  let ?cs = "map (candidate u rnd) [0..<5]"
  let ?run = "run (map (\<lambda>i. Shorten (JObj kvs) (rnds i) (nows i)) [0..<5]) d"
  from assms(3) have dist: "distinct ?cs" by (simp only: candidates_eq)
  from assms(4) have disj: "set ?cs \<inter> set (codes d) = {}" by (simp only: candidates_eq)
  from run_shorten_prefix [OF assms(1,2) dist disj, of 5 rnds nows]
  have resp: "fst ?run = map (\<lambda>i. Json 201 (created_body (candidate u rnd i) u)) [0..<5]"
    and codes: "codes (snd ?run) = codes d @ ?cs"
    by simp_all
  have "map (\<lambda>i. Json 201 (created_body (candidate u rnd i) u)) [0..<5] =
      map (\<lambda>c. Json 201 (created_body c u)) ?cs"
    by (simp only: map_map comp_def)
  with resp have resp': "?run = (map (\<lambda>c. Json 201 (created_body c u)) ?cs, snd ?run)"
    by (simp add: prod_eq_iff)
  from codes have "set (map (candidate u (rnds 5)) [0..<5]) \<subseteq> set (codes (snd ?run))"
    by (auto simp: candidate_rnd [of u "rnds 5" _ rnd])
  with assms(1,2) have "shorten_url (JObj kvs) (rnds 5) (nows 5) (snd ?run) =
       (Json 500 (error_body ''Failed to generate unique short code''), snd ?run)"
    by (rule shorten_url_exhausted)
  then have last: "shorten_url (JObj kvs) (rnds 5) (nows 5) (snd ?run) =
       (Json 500 (JObj [(''error'', JStr ''Failed to generate unique short code'')]), snd ?run)"
    by (simp add: error_body_def)
  from resp' codes last show ?thesis
    unfolding candidates_eq by blast
qed

theorem repeated_shortening_exhausts_witness:
  "map_of [(''url'', JStr ''http://a'')] ''url'' = Some (JStr ''http://a'') \<and>
   valid_url ''http://a'' \<and>
   [generate_short_code ''http://a'' (rnd0 0) 6,
    generate_short_code (''http://a'' @ ''0'') (rnd0 1) 6,
    generate_short_code (''http://a'' @ ''1'') (rnd0 2) 6,
    generate_short_code (''http://a'' @ ''2'') (rnd0 3) 6,
    generate_short_code (''http://a'' @ ''3'') (rnd0 4) 6] =
     [''82795f'', ''115ec9'', ''660e2e'', ''c54579'', ''49738f''] \<and>
   distinct [''82795f'', ''115ec9'', ''660e2e'', ''c54579'', ''49738f''] \<and>
   set [''82795f'', ''115ec9'', ''660e2e'', ''c54579'', ''49738f''] \<inter>
     set (codes (init_db None)) = {} \<and>
   (\<exists>d5.
      run (map (\<lambda>i. Shorten (JObj [(''url'', JStr ''http://a'')]) rnd0 i) [0..<5]) (init_db None) =
        (map (\<lambda>c. Json 201 (created_body c ''http://a''))
           [''82795f'', ''115ec9'', ''660e2e'', ''c54579'', ''49738f''], d5) \<and>
      codes d5 = [''82795f'', ''115ec9'', ''660e2e'', ''c54579'', ''49738f''] \<and>
      shorten_url (JObj [(''url'', JStr ''http://a'')]) rnd0 5 d5 =
        (Json 500 (JObj [(''error'', JStr ''Failed to generate unique short code'')]), d5))"
proof -
  have kv: "map_of [(''url'', JStr ''http://a'')] ''url'' = Some (JStr ''http://a'')"
    by simp
  have cs: "[generate_short_code ''http://a'' (rnd0 0) 6,
      generate_short_code (''http://a'' @ ''0'') (rnd0 1) 6,
      generate_short_code (''http://a'' @ ''1'') (rnd0 2) 6,
      generate_short_code (''http://a'' @ ''2'') (rnd0 3) 6,
      generate_short_code (''http://a'' @ ''3'') (rnd0 4) 6] =
     [''82795f'', ''115ec9'', ''660e2e'', ''c54579'', ''49738f'']"
    by (simp add: generate_url)
  have dist: "distinct [''82795f'', ''115ec9'', ''660e2e'', ''c54579'', ''49738f'']"
    by simp
  have disj: "set [''82795f'', ''115ec9'', ''660e2e'', ''c54579'', ''49738f''] \<inter>
      set (codes (init_db None)) = {}"
    by (simp add: init_db_codes)
  note inst = repeated_shortening_exhausts [of "[(''url'', JStr ''http://a'')]" "''http://a''"
      rnd0 "init_db None" "\<lambda>i. rnd0" "\<lambda>i. i", unfolded cs, OF kv valid_url_a dist disj]
  from kv valid_url_a cs dist disj inst show ?thesis
    by (simp only: init_db_codes append_Nil simp_thms)
qed

end
